theory Spec2Isabelle
  imports Complex_Main
begin

section \<open>JavaScript values as the order-intake handler sees them\<close>

text \<open>
  The handler in \<^verbatim>\<open>supabase/functions/process-store-order/index.ts\<close> reads its
  payload with \<^verbatim>\<open>req.json()\<close>. The TypeScript annotation \<^verbatim>\<open>OrderData\<close> is not
  checked at run time, so the payload is any JSON value. A JavaScript value read from it
  is either \<^verbatim>\<open>undefined\<close> (\<open>None\<close>) or a JSON value. JSON numbers are modelled as
  rationals; an object is the list of its own properties (keys distinct after parsing).
\<close>

datatype json =
    JNull
  | JBool bool
  | JNum rat
  | JStr string
  | JArr "json list"
  | JObj "(string \<times> json) list"

type_synonym jsval = "json option"

datatype js_error = SyntaxError | TypeError | Error

text \<open>
  Reading a data property \<^verbatim>\<open>v.k\<close>: a TypeError on \<^verbatim>\<open>undefined\<close> and \<^verbatim>\<open>null\<close>,
  the own property of an object, \<^verbatim>\<open>length\<close> of an array or string, and
  \<^verbatim>\<open>undefined\<close> otherwise. It is used only with the property names of the source.
\<close>

fun member :: "jsval \<Rightarrow> string \<Rightarrow> js_error + jsval" where
  "member None k = Inl TypeError"
| "member (Some JNull) k = Inl TypeError"
| "member (Some (JObj fs)) k = Inr (map_of fs k)"
| "member (Some (JArr xs)) k =
     Inr (if k = ''length'' then Some (JNum (of_nat (length xs))) else None)"
| "member (Some (JStr s)) k =
     Inr (if k = ''length'' then Some (JNum (of_nat (length s))) else None)"
| "member (Some (JBool b)) k = Inr None"
| "member (Some (JNum n)) k = Inr None"

text \<open>The same read where the receiver is already known not to be null.\<close>

definition field :: "json \<Rightarrow> string \<Rightarrow> jsval" where
  "field v k = (case member (Some v) k of Inl e \<Rightarrow> None | Inr x \<Rightarrow> x)"

text \<open>JavaScript truthiness, as \<^verbatim>\<open>!x\<close> and \<^verbatim>\<open>if (x)\<close> use it.\<close>

fun truthy :: "jsval \<Rightarrow> bool" where
  "truthy None = False"
| "truthy (Some JNull) = False"
| "truthy (Some (JBool b)) = b"
| "truthy (Some (JNum n)) = (n \<noteq> 0)"
| "truthy (Some (JStr s)) = (s \<noteq> [])"
| "truthy (Some (JArr xs)) = True"
| "truthy (Some (JObj fs)) = True"

text \<open>
  \<^verbatim>\<open>ToString\<close> of a JSON value, as a template literal applies it (\<^verbatim>\<open>ToPrimitive\<close> with
  hint string), throws a TypeError exactly on an object with an own property
  \<^verbatim>\<open>toString\<close>: the property holds a JSON value, which is not callable, and
  \<^verbatim>\<open>Object.prototype.valueOf\<close> returns no primitive. An array joins the strings of its
  elements. The comparison \<^verbatim>\<open>v > 0\<close> (hint number) throws on the same values.
\<close>

fun toString_throws :: "json \<Rightarrow> bool" where
  "toString_throws (JObj fs) = (map_of fs ''toString'' \<noteq> None)"
| "toString_throws (JArr xs) = list_ex toString_throws xs"
| "toString_throws JNull = False"
| "toString_throws (JBool b) = False"
| "toString_throws (JNum n) = False"
| "toString_throws (JStr s) = False"

text \<open>
  The call \<^verbatim>\<open>v.toLocaleString()\<close> throws a TypeError on \<^verbatim>\<open>null\<close>, on an object with an own
  property \<^verbatim>\<open>toLocaleString\<close> (not callable) or \<^verbatim>\<open>toString\<close> (which
  \<^verbatim>\<open>Object.prototype.toLocaleString\<close> invokes), and on an array with an element, other than
  \<^verbatim>\<open>null\<close>, on which it throws. Numbers, strings and booleans have the method.
\<close>

fun toLocaleString_throws :: "json \<Rightarrow> bool" where
  "toLocaleString_throws JNull = True"
| "toLocaleString_throws (JObj fs) =
     (map_of fs ''toLocaleString'' \<noteq> None \<or> map_of fs ''toString'' \<noteq> None)"
| "toLocaleString_throws (JArr xs) =
     list_ex (\<lambda>x. x \<noteq> JNull \<and> toLocaleString_throws x) xs"
| "toLocaleString_throws (JBool b) = False"
| "toLocaleString_throws (JNum n) = False"
| "toLocaleString_throws (JStr s) = False"

text \<open>The same for a value that may be \<^verbatim>\<open>undefined\<close>: it prints, but has no methods.\<close>

definition interpolation_throws :: "jsval \<Rightarrow> bool" where
  "interpolation_throws v = (case v of None \<Rightarrow> False | Some j \<Rightarrow> toString_throws j)"

definition method_call_throws :: "jsval \<Rightarrow> bool" where
  "method_call_throws v = (case v of None \<Rightarrow> True | Some j \<Rightarrow> toLocaleString_throws j)"

section \<open>Strings and the order number\<close>

text \<open>
  The digit characters of \<^verbatim>\<open>Number.prototype.toString\<close>, for radix 36 and below, and
  the ASCII letter case pairs of \<^verbatim>\<open>toUpperCase\<close> (no other letter occurs here).
\<close>

definition digit_char :: "nat \<Rightarrow> char" where
  "digit_char d = ''0123456789abcdefghijklmnopqrstuvwxyz'' ! d"

definition is_digit :: "char \<Rightarrow> bool" where
  "is_digit c = (c \<in> set ''0123456789'')"

definition is_upper_alnum :: "char \<Rightarrow> bool" where
  "is_upper_alnum c = (c \<in> set ''0123456789ABCDEFGHIJKLMNOPQRSTUVWXYZ'')"

text \<open>
  \<^verbatim>\<open>Date.now()\<close> is a whole number of milliseconds since the epoch (below 8.64e15), which
  a template literal prints in plain decimal.
\<close>

fun digits10 :: "nat \<Rightarrow> string" where
  "digits10 n =
     (if n < 10 then [digit_char n]
      else digits10 (n div 10) @ [digit_char (n mod 10)])"

declare digits10.simps [simp del]

text \<open>The number that a string of decimal digits denotes.\<close>

definition digit_value :: "char \<Rightarrow> nat" where
  "digit_value c =
     (case map_of (zip ''0123456789'' [0, 1, 2, 3, 4, 5, 6, 7, 8, 9]) c of
        None \<Rightarrow> 0
      | Some d \<Rightarrow> d)"

definition decimal_value :: "string \<Rightarrow> nat" where
  "decimal_value s = foldl (\<lambda>acc c. 10 * acc + digit_value c) 0 s"

text \<open>
  \<^verbatim>\<open>Math.random()\<close> is a number in [0, 1). The model takes it by the base-36 digits of
  its fraction as \<^verbatim>\<open>toString(36)\<close> prints them: \<^verbatim>\<open>0\<close> prints as \<^verbatim>\<open>"0"\<close> (no digits),
  \<^verbatim>\<open>0.5\<close> as \<^verbatim>\<open>"0.i"\<close> (the one digit 18), a typical value as eleven or so digits.
\<close>

definition toString36 :: "nat list \<Rightarrow> string" where
  "toString36 ds = (if ds = [] then ''0'' else ''0.'' @ map digit_char ds)"

definition substr :: "string \<Rightarrow> nat \<Rightarrow> nat \<Rightarrow> string" where
  "substr s start len = take len (drop start s)"

definition toUpper :: "char \<Rightarrow> char" where
  "toUpper c =
     (case map_of (zip ''abcdefghijklmnopqrstuvwxyz'' ''ABCDEFGHIJKLMNOPQRSTUVWXYZ'') c of
        None \<Rightarrow> c
      | Some u \<Rightarrow> u)"

definition toUpperCase :: "string \<Rightarrow> string" where
  "toUpperCase s = map toUpper s"

text \<open>Line 58: the template \<^verbatim>\<open>ORD-${Date.now()}-${Math.random().toString(36).substr(2, 5).toUpperCase()}\<close>.\<close>

definition orderNumber :: "nat \<Rightarrow> nat list \<Rightarrow> string" where
  "orderNumber now rnd =
     ''ORD-'' @ digits10 now @ ''-'' @ toUpperCase (substr (toString36 rnd) 2 5)"

text \<open>
  The pattern of the specification, \<^verbatim>\<open>ORD-<digits>-<uppercase alphanumerics>\<close>, as a
  matcher; the first argument decides which suffix lengths are accepted. A digit is never a
  hyphen, so the longest run of digits is the only possible match of \<^verbatim>\<open><digits>\<close>.
\<close>

definition order_number_shape :: "(nat \<Rightarrow> bool) \<Rightarrow> string \<Rightarrow> bool" where
  "order_number_shape len_ok s =
     (take 4 s = ''ORD-'' \<and>
      (let ts = takeWhile is_digit (drop 4 s);
           rest = dropWhile is_digit (drop 4 s)
       in ts \<noteq> [] \<and> take 1 rest = ''-'' \<and>
          len_ok (length (drop 1 rest)) \<and> list_all is_upper_alnum (drop 1 rest)))"

text \<open>The pattern with exactly five characters after the second hyphen.\<close>

definition matches_order_pattern :: "string \<Rightarrow> bool" where
  "matches_order_pattern s = order_number_shape (\<lambda>n. n = 5) s"

section \<open>The database and the world of one invocation\<close>

text \<open>
  The columns the handler writes to \<^verbatim>\<open>store_orders\<close> (lines 63 to 77). Values copied from
  the payload keep their JavaScript value; the two status columns are string literals.
\<close>

record order_values =
  order_number :: string
  customer_name :: jsval
  customer_email :: jsval
  customer_phone :: jsval
  institution_name :: jsval
  billing_address :: jsval
  payment_method :: jsval
  subtotal :: jsval
  tax_amount :: jsval
  discount_amount :: jsval
  total_amount :: jsval
  order_status :: string
  payment_status :: string

text \<open>The columns written to \<^verbatim>\<open>store_order_items\<close> (lines 93 to 101).\<close>

record item_values =
  order_id :: string
  addon_id :: jsval
  addon_name :: jsval
  addon_description :: jsval
  quantity :: jsval
  unit_price :: jsval
  total_price :: jsval

text \<open>
  Of \<^verbatim>\<open>store_addons\<close> only the primary key and the publish flag are read or written by the
  code modelled here.
\<close>

record addon_row =
  row_id :: string
  row_is_published :: bool

record database =
  store_addons :: "addon_row list"
  store_orders :: "(string \<times> order_values) list"
  store_order_items :: "item_values list"

datatype fetch_outcome = FetchRejects | FetchResponse bool

text \<open>
  What the surroundings answer during one invocation: the clock, the random number, the
  environment variables, the outcome of each database call (the client returns an error
  object, it does not throw) and of the call to the email provider.
\<close>

record world =
  date_now :: nat
  math_random36 :: "nat list"
  supabase_env_set :: bool
  env_MAILERSEND_API_KEY :: "string option"
  insert_order_result :: "string option"
  insert_items_ok :: bool
  delete_order_ok :: bool
  mailersend_fetch :: fetch_outcome

datatype effect =
    InsertOrder order_values
  | InsertItems "item_values list"
  | DeleteOrder string
  | RpcIncrementDownloadCount jsval
  | FetchMailersend
  | ConsoleError string

record request =
  req_method :: string
  req_json :: "json option"

record response =
  status :: nat
  headers :: "(string \<times> string) list"
  body :: jsval

section \<open>The order-intake handler\<close>

definition corsHeaders :: "(string \<times> string) list" where
  "corsHeaders =
     [(''Access-Control-Allow-Origin'', ''*''),
      (''Access-Control-Allow-Headers'', ''authorization, x-client-info, apikey, content-type''),
      (''Access-Control-Allow-Methods'', ''POST, OPTIONS'')]"

definition json_response :: "nat \<Rightarrow> (string \<times> json) list \<Rightarrow> response" where
  "json_response st fs =
     \<lparr>status = st,
      headers = corsHeaders @ [(''Content-Type'', ''application/json'')],
      body = Some (JObj fs)\<rparr>"

text \<open>
  Line 42: \<^verbatim>\<open>!customer_name || !customer_email || !items || items.length === 0\<close>, with
  JavaScript's short-circuit order. \<open>Inr True\<close> means the request is rejected.
\<close>

definition missing_required :: "json \<Rightarrow> js_error + bool" where
  "missing_required od =
     (case member (Some od) ''customer_name'' of
        Inl e \<Rightarrow> Inl e
      | Inr name \<Rightarrow>
          if \<not> truthy name then Inr True
          else (case member (Some od) ''customer_email'' of
                  Inl e \<Rightarrow> Inl e
                | Inr email \<Rightarrow>
                    if \<not> truthy email then Inr True
                    else (case member (Some od) ''items'' of
                            Inl e \<Rightarrow> Inl e
                          | Inr items \<Rightarrow>
                              if \<not> truthy items then Inr True
                              else (case member items ''length'' of
                                      Inl e \<Rightarrow> Inl e
                                    | Inr len \<Rightarrow> Inr (len = Some (JNum 0))))))"

definition order_values_of :: "json \<Rightarrow> string \<Rightarrow> order_values" where
  "order_values_of od num =
     \<lparr>order_number = num,
      customer_name = field od ''customer_name'',
      customer_email = field od ''customer_email'',
      customer_phone = field od ''customer_phone'',
      institution_name = field od ''institution_name'',
      billing_address = field od ''billing_address'',
      payment_method = field od ''payment_method'',
      subtotal = field od ''subtotal'',
      tax_amount = field od ''tax_amount'',
      discount_amount = field od ''discount_amount'',
      total_amount = field od ''total_amount'',
      order_status = ''pending'',
      payment_status = ''pending''\<rparr>"

text \<open>
  Lines 93 to 101: \<^verbatim>\<open>orderData.items.map(item => ({ order_id: order.id, ... }))\<close>. Reading a
  property of a \<^verbatim>\<open>null\<close> item throws; a value that is not an array has no \<^verbatim>\<open>map\<close>
  method, and calling it throws as well.
\<close>

fun map_items :: "string \<Rightarrow> json list \<Rightarrow> js_error + item_values list" where
  "map_items oid [] = Inr []"
| "map_items oid (item # rest) =
     (if item = JNull then Inl TypeError
      else case map_items oid rest of
             Inl e \<Rightarrow> Inl e
           | Inr rows \<Rightarrow>
               Inr (\<lparr>order_id = oid,
                     addon_id = field item ''addon_id'',
                     addon_name = field item ''addon_name'',
                     addon_description = field item ''addon_description'',
                     quantity = field item ''quantity'',
                     unit_price = field item ''unit_price'',
                     total_price = field item ''total_price''\<rparr> # rows))"

definition orderItems :: "string \<Rightarrow> jsval \<Rightarrow> js_error + item_values list" where
  "orderItems oid items =
     (case items of Some (JArr xs) \<Rightarrow> map_items oid xs | _ \<Rightarrow> Inl TypeError)"

text \<open>
  Line 110: \<^verbatim>\<open>delete().eq('id', order.id)\<close> on \<^verbatim>\<open>store_orders\<close>; the items of the order go
  with it (\<^verbatim>\<open>ON DELETE CASCADE\<close> in the migration).
\<close>

definition delete_order :: "string \<Rightarrow> database \<Rightarrow> database" where
  "delete_order oid db =
     db\<lparr>store_orders := filter (\<lambda>r. fst r \<noteq> oid) (store_orders db),
        store_order_items := filter (\<lambda>r. order_id r \<noteq> oid) (store_order_items db)\<rparr>"

text \<open>
  Lines 132 to 182: the HTML of the email is not modelled, only whether evaluating the
  template throws. The template interpolates \<^verbatim>\<open>customer_name\<close> and, for every item,
  \<^verbatim>\<open>addon_name\<close>, \<^verbatim>\<open>addon_description\<close> and \<^verbatim>\<open>quantity\<close>; it calls \<^verbatim>\<open>toLocaleString()\<close>
  on \<^verbatim>\<open>unit_price\<close> and \<^verbatim>\<open>total_price\<close> of every item and on \<^verbatim>\<open>subtotal\<close> and
  \<^verbatim>\<open>total_amount\<close>; it compares \<^verbatim>\<open>tax_amount\<close> and \<^verbatim>\<open>discount_amount\<close> with \<^verbatim>\<open>0\<close>. Where
  such a comparison holds the value is a number, a numeric string, \<^verbatim>\<open>true\<close> or an array
  around one of these, on which the \<^verbatim>\<open>toLocaleString()\<close> that follows does not throw.
\<close>

definition item_content_throws :: "json \<Rightarrow> bool" where
  "item_content_throws item =
     (interpolation_throws (field item ''addon_name'') \<or>
      interpolation_throws (field item ''addon_description'') \<or>
      interpolation_throws (field item ''quantity'') \<or>
      method_call_throws (field item ''unit_price'') \<or>
      method_call_throws (field item ''total_price''))"

definition emailContent_ok :: "json \<Rightarrow> json list \<Rightarrow> bool" where
  "emailContent_ok od items =
     (\<not> (interpolation_throws (field od ''customer_name'') \<or>
          list_ex item_content_throws items \<or>
          method_call_throws (field od ''subtotal'') \<or>
          interpolation_throws (field od ''tax_amount'') \<or>
          interpolation_throws (field od ''discount_amount'') \<or>
          method_call_throws (field od ''total_amount'')))"

text \<open>
  Lines 127 to 213. Returns \<^verbatim>\<open>emailSent\<close> and the effects. An exception of the template
  or of \<^verbatim>\<open>fetch\<close> is caught by the inner \<^verbatim>\<open>catch\<close> and logged.
\<close>

definition send_email :: "world \<Rightarrow> json \<Rightarrow> json list \<Rightarrow> bool \<times> effect list" where
  "send_email w od items =
     (if \<not> truthy (map_option JStr (env_MAILERSEND_API_KEY w)) then (False, [])
      else if \<not> emailContent_ok od items
      then (False, [ConsoleError ''Email sending error:''])
      else (case mailersend_fetch w of
              FetchRejects \<Rightarrow> (False, [FetchMailersend, ConsoleError ''Email sending error:''])
            | FetchResponse ok \<Rightarrow> (ok, [FetchMailersend])))"

text \<open>
  The elements of \<^verbatim>\<open>orderData.items\<close>, which is an array wherever the code iterates over
  it a second time (line 122, line 158): the \<^verbatim>\<open>map\<close> of line 93 has returned.
\<close>

definition items_list :: "json \<Rightarrow> json list" where
  "items_list od = (case field od ''items'' of Some (JArr xs) \<Rightarrow> xs | _ \<Rightarrow> [])"

text \<open>
  Lines 92 to 227, after the order row has been created with id \<open>oid\<close>. The result of
  each \<^verbatim>\<open>rpc('increment_download_count', ...)\<close> call is ignored (line 123) and no migration of
  the repository defines that function, so the call is kept as an effect only.
\<close>

definition after_order ::
  "world \<Rightarrow> json \<Rightarrow> string \<Rightarrow> string \<Rightarrow> database \<Rightarrow>
   (js_error + response) \<times> database \<times> effect list" where
  "after_order w od oid num db =
     (case orderItems oid (field od ''items'') of
        Inl e \<Rightarrow> (Inl e, db, [])
      | Inr rows \<Rightarrow>
          if \<not> insert_items_ok w then
            (Inr (json_response 500 [(''error'', JStr ''Failed to create order items'')]),
             (if delete_order_ok w then delete_order oid db else db),
             [InsertItems rows, ConsoleError ''Order items creation error:'', DeleteOrder oid])
          else
            (let items = items_list od;
                 rpcs = map (\<lambda>item. RpcIncrementDownloadCount (field item ''addon_id'')) items;
                 sent = send_email w od items
             in (Inr (json_response 200
                        [(''success'', JBool True),
                         (''order_id'', JStr oid),
                         (''order_number'', JStr num),
                         (''message'', JStr ''Order created successfully''),
                         (''email_sent'', JBool (fst sent))]),
                 db\<lparr>store_order_items := store_order_items db @ rows\<rparr>,
                 [InsertItems rows] @ rpcs @ snd sent)))"

text \<open>
  The body of the outer \<^verbatim>\<open>try\<close> (lines 39 to 227). \<^verbatim>\<open>req.json()\<close> rejects on a body that
  is not JSON; \<^verbatim>\<open>createClient\<close> (line 55) throws when the Supabase URL or key is missing
  from the environment.
\<close>

definition process ::
  "world \<Rightarrow> request \<Rightarrow> database \<Rightarrow> (js_error + response) \<times> database \<times> effect list" where
  "process w req db =
     (case req_json req of
        None \<Rightarrow> (Inl SyntaxError, db, [])
      | Some od \<Rightarrow>
          (case missing_required od of
             Inl e \<Rightarrow> (Inl e, db, [])
           | Inr True \<Rightarrow>
               (Inr (json_response 400 [(''error'', JStr ''Missing required fields'')]), db, [])
           | Inr False \<Rightarrow>
               if \<not> supabase_env_set w then (Inl Error, db, [])
               else
                 (let num = orderNumber (date_now w) (math_random36 w);
                      vals = order_values_of od num
                  in case insert_order_result w of
                       None \<Rightarrow>
                         (Inr (json_response 500 [(''error'', JStr ''Failed to create order'')]),
                          db,
                          [InsertOrder vals, ConsoleError ''Order creation error:''])
                     | Some oid \<Rightarrow>
                         (case after_order w od oid num
                                 (db\<lparr>store_orders := store_orders db @ [(oid, vals)]\<rparr>) of
                            (r, db', effs) \<Rightarrow> (r, db', InsertOrder vals # effs)))))"

text \<open>The text of \<^verbatim>\<open>error.message\<close> depends on the engine; only its kind is kept.\<close>

fun message :: "js_error \<Rightarrow> string" where
  "message SyntaxError = ''SyntaxError''"
| "message TypeError = ''TypeError''"
| "message Error = ''Error''"

text \<open>The handler given to \<^verbatim>\<open>Deno.serve\<close> (lines 32 to 239).\<close>

definition serve :: "world \<Rightarrow> request \<Rightarrow> database \<Rightarrow> response \<times> database \<times> effect list" where
  "serve w req db =
     (if req_method req = ''OPTIONS''
      then (\<lparr>status = 200, headers = corsHeaders, body = None\<rparr>, db, [])
      else case process w req db of
             (Inl e, db', effs) \<Rightarrow>
               (json_response 500
                  [(''error'', JStr ''Internal server error''), (''details'', JStr (message e))],
                db', effs @ [ConsoleError ''Error processing order:''])
           | (Inr r, db', effs) \<Rightarrow> (r, db', effs))"

section \<open>Reading a response and the effects\<close>


definition body_field :: "response \<Rightarrow> string \<Rightarrow> jsval" where
  "body_field r k = (case body r of Some (JObj fs) \<Rightarrow> map_of fs k | _ \<Rightarrow> None)"

definition has_error_field :: "response \<Rightarrow> bool" where
  "has_error_field r = (body_field r ''error'' \<noteq> None)"

fun is_insert :: "effect \<Rightarrow> bool" where
  "is_insert (InsertOrder v) = True"
| "is_insert (InsertItems rows) = True"
| "is_insert e = False"

text \<open>The email API key counts as configured when \<^verbatim>\<open>if (mailersendApiKey)\<close> passes.\<close>

definition api_key_configured :: "world \<Rightarrow> bool" where
  "api_key_configured w = truthy (map_option JStr (env_MAILERSEND_API_KEY w))"

section \<open>The admin dashboard\<close>

text \<open>
  The interfaces of \<^verbatim>\<open>src/components/dashboard/StoreManager.tsx\<close>. Field names carry a
  prefix where two interfaces share a name. The type \<open>'n\<close> stands for JavaScript's
  \<^verbatim>\<open>number\<close>, an IEEE double. The one place where the code computes with such numbers is
  the revenue total; the three operations it uses there are parameters of the model, so
  that nothing is assumed of them that double arithmetic does not have.
\<close>

record 'n number_ops =
  num_add :: "'n \<Rightarrow> 'n \<Rightarrow> 'n"
  num_zero :: 'n
  num_falsy :: "'n \<Rightarrow> bool"

record category_ref =
  cat_name :: string
  cat_slug :: string

record 'n StoreAddon =
  sa_id :: string
  sa_name :: string
  sa_slug :: string
  sa_description :: string
  sa_short_description :: string
  sa_price :: 'n
  sa_original_price :: "'n option"
  sa_currency :: string
  sa_features :: "string list"
  sa_is_published :: bool
  sa_is_featured :: bool
  sa_is_popular :: bool
  sa_download_count :: nat
  sa_rating :: 'n
  sa_review_count :: nat
  sa_category :: category_ref
  sa_created_at :: string

record 'n order_line =
  ol_addon_name :: string
  ol_quantity :: nat
  ol_unit_price :: 'n
  ol_total_price :: 'n

record 'n StoreOrder =
  so_id :: string
  so_order_number :: string
  so_customer_name :: string
  so_customer_email :: string
  so_institution_name :: string
  so_order_status :: string
  so_payment_status :: string
  so_total_amount :: 'n
  so_currency :: string
  so_created_at :: string
  so_items :: "'n order_line list"

record 'n StoreStats =
  totalAddons :: nat
  publishedAddons :: nat
  totalOrders :: nat
  totalRevenue :: 'n
  pendingOrders :: nat

text \<open>The component state (the \<^verbatim>\<open>useState\<close> cells the modelled code touches) and its console.\<close>

record 'n dashboard =
  addons :: "'n StoreAddon list"
  orders :: "'n StoreOrder list"
  stats :: "'n StoreStats"
  loading :: bool
  console :: "string list"

text \<open>
  The answer of a \<^verbatim>\<open>select\<close>: an error, or the data, which the code allows to be
  \<^verbatim>\<open>null\<close> (\<open>None\<close>).
\<close>

datatype 'a pg_result = PgError | PgData "'a list option"

text \<open>\<^verbatim>\<open>x || 0\<close> on a count that may be \<^verbatim>\<open>undefined\<close>: a falsy left side gives \<open>0\<close>.\<close>

definition or_zero :: "nat option \<Rightarrow> nat" where
  "or_zero v = (case v of None \<Rightarrow> 0 | Some n \<Rightarrow> if n = 0 then 0 else n)"

text \<open>
  The same on a \<^verbatim>\<open>number\<close>: falsy are \<^verbatim>\<open>undefined\<close> and the numbers \<^verbatim>\<open>num_falsy\<close> tells
  (for a double: \<^verbatim>\<open>0\<close>, \<^verbatim>\<open>-0\<close> and \<^verbatim>\<open>NaN\<close>).
\<close>

definition or_zero_number :: "'n number_ops \<Rightarrow> 'n option \<Rightarrow> 'n" where
  "or_zero_number ops v =
     (case v of None \<Rightarrow> num_zero ops | Some x \<Rightarrow> if num_falsy ops x then num_zero ops else x)"

text \<open>\<^verbatim>\<open>x || []\<close> on an array that may be \<^verbatim>\<open>null\<close>.\<close>

definition or_empty :: "'a list option \<Rightarrow> 'a list" where
  "or_empty v = (case v of None \<Rightarrow> [] | Some xs \<Rightarrow> xs)"

text \<open>
  Lines 114 to 127: each statistic, with its optional chaining and its default. The
  \<^verbatim>\<open>reduce\<close> of line 118 adds the amounts to \<^verbatim>\<open>0\<close> from left to right.
\<close>

definition calc_stats ::
  "'n number_ops \<Rightarrow> 'n StoreAddon list option \<Rightarrow> 'n StoreOrder list option \<Rightarrow> 'n StoreStats" where
  "calc_stats ops addonsData ordersData =
     \<lparr>totalAddons = or_zero (map_option length addonsData),
      publishedAddons =
        or_zero (map_option (\<lambda>xs. length (filter (\<lambda>addon. sa_is_published addon) xs)) addonsData),
      totalOrders = or_zero (map_option length ordersData),
      totalRevenue =
        or_zero_number ops
          (map_option
             (foldl (\<lambda>sum order. num_add ops sum (so_total_amount order)) (num_zero ops))
             ordersData),
      pendingOrders =
        or_zero (map_option
          (\<lambda>xs. length (filter (\<lambda>order. so_order_status order = ''pending'') xs)) ordersData)\<rparr>"

text \<open>
  The sum of a list of amounts in the words of the specification, as the running total
  after the first \<open>k\<close> of them.
\<close>

fun running_total :: "'n number_ops \<Rightarrow> 'n list \<Rightarrow> nat \<Rightarrow> 'n" where
  "running_total ops xs 0 = num_zero ops"
| "running_total ops xs (Suc k) = num_add ops (running_total ops xs k) (xs ! k)"

text \<open>
  Lines 82 to 134. An error of either query is thrown, caught and logged; \<^verbatim>\<open>finally\<close>
  clears \<^verbatim>\<open>loading\<close> on every path.
\<close>

definition fetchStoreData ::
  "'n number_ops \<Rightarrow> 'n StoreAddon pg_result \<Rightarrow> 'n StoreOrder pg_result \<Rightarrow>
   'n dashboard \<Rightarrow> 'n dashboard" where
  "fetchStoreData ops addonsRes ordersRes d =
     (case addonsRes of
        PgError \<Rightarrow> d\<lparr>loading := False, console := console d @ [''Error fetching store data:'']\<rparr>
      | PgData addonsData \<Rightarrow>
          (case ordersRes of
             PgError \<Rightarrow>
               d\<lparr>loading := False, console := console d @ [''Error fetching store data:'']\<rparr>
           | PgData ordersData \<Rightarrow>
               d\<lparr>addons := or_empty addonsData,
                  orders := or_empty ordersData,
                  stats := calc_stats ops addonsData ordersData,
                  loading := False\<rparr>))"

text \<open>
  The database calls of the dashboard. Each returns whether the client reported an error,
  and the database afterwards. The first argument says that the call fails for a reason
  outside the model (network, permissions). Two constraints of the migration are part of
  the model: the \<^verbatim>\<open>CHECK\<close> on \<^verbatim>\<open>store_orders.order_status\<close> (line 74), and the foreign key
  \<^verbatim>\<open>store_order_items.addon_id REFERENCES store_addons(id)\<close> (line 93), which has no
  \<^verbatim>\<open>ON DELETE\<close> action and so refuses the delete of an add-on that an order item refers to.
\<close>

definition delete_addon :: "bool \<Rightarrow> string \<Rightarrow> database \<Rightarrow> bool \<times> database" where
  "delete_addon unavailable ident db =
     (if unavailable \<or> list_ex (\<lambda>r. addon_id r = Some (JStr ident)) (store_order_items db)
      then (True, db)
      else (False, db\<lparr>store_addons := filter (\<lambda>r. row_id r \<noteq> ident) (store_addons db)\<rparr>))"

definition update_is_published :: "bool \<Rightarrow> string \<Rightarrow> bool \<Rightarrow> database \<Rightarrow> bool \<times> database" where
  "update_is_published unavailable ident v db =
     (if unavailable then (True, db)
      else (False,
            db\<lparr>store_addons :=
                 map (\<lambda>r. if row_id r = ident then r\<lparr>row_is_published := v\<rparr> else r)
                   (store_addons db)\<rparr>))"

definition allowed_order_status :: "string list" where
  "allowed_order_status = [''pending'', ''processing'', ''completed'', ''cancelled'', ''refunded'']"

definition update_order_status :: "bool \<Rightarrow> string \<Rightarrow> string \<Rightarrow> database \<Rightarrow> bool \<times> database" where
  "update_order_status unavailable ident st db =
     (if unavailable \<or> st \<notin> set allowed_order_status then (True, db)
      else (False,
            db\<lparr>store_orders :=
                 map (\<lambda>r. if fst r = ident then (fst r, (snd r)\<lparr>order_status := st\<rparr>) else r)
                   (store_orders db)\<rparr>))"

text \<open>
  The three handlers close over the \<^verbatim>\<open>addons\<close> and \<^verbatim>\<open>orders\<close> arrays of the render that
  created them. \<open>handleDeleteAddon\<close>, \<open>handleTogglePublish\<close> and \<open>handleUpdateOrderStatus\<close>
  below are the handlers of the latest render, whose arrays are those of the current state.
\<close>

text \<open>Lines 136 to 151. The first argument is the answer to \<^verbatim>\<open>confirm(...)\<close>.\<close>

definition handleDeleteAddon ::
  "bool \<Rightarrow> bool \<Rightarrow> string \<Rightarrow> database \<times> 'n dashboard \<Rightarrow> database \<times> 'n dashboard" where
  "handleDeleteAddon confirmed unavailable ident s =
     (if \<not> confirmed then s
      else case delete_addon unavailable ident (fst s) of
             (err, db') \<Rightarrow>
               if err
               then (db', (snd s)\<lparr>console := console (snd s) @ [''Error deleting add-on:'']\<rparr>)
               else (db', (snd s)\<lparr>addons := filter (\<lambda>addon. sa_id addon \<noteq> ident) (addons (snd s))\<rparr>))"

text \<open>Lines 153 to 168.\<close>

definition handleTogglePublish ::
  "bool \<Rightarrow> string \<Rightarrow> bool \<Rightarrow> database \<times> 'n dashboard \<Rightarrow> database \<times> 'n dashboard" where
  "handleTogglePublish unavailable ident currentStatus s =
     (case update_is_published unavailable ident (\<not> currentStatus) (fst s) of
        (err, db') \<Rightarrow>
          if err
          then (db', (snd s)\<lparr>console := console (snd s) @ [''Error updating add-on status:'']\<rparr>)
          else (db', (snd s)\<lparr>addons :=
                  map (\<lambda>addon. if sa_id addon = ident
                                then addon\<lparr>sa_is_published := \<not> currentStatus\<rparr> else addon)
                    (addons (snd s))\<rparr>))"

text \<open>
  Lines 153 to 168 again, for the handler of any render: \<^verbatim>\<open>setAddons(addons.map(...))\<close> maps
  over the \<^verbatim>\<open>addons\<close> array of the render that created the handler, which is the second
  argument, and stores the result as the new state.
\<close>

definition handleTogglePublish_of_render ::
  "bool \<Rightarrow> 'n dashboard \<Rightarrow> string \<Rightarrow> bool \<Rightarrow> database \<times> 'n dashboard \<Rightarrow>
   database \<times> 'n dashboard" where
  "handleTogglePublish_of_render unavailable render ident currentStatus s =
     (case update_is_published unavailable ident (\<not> currentStatus) (fst s) of
        (err, db') \<Rightarrow>
          if err
          then (db', (snd s)\<lparr>console := console (snd s) @ [''Error updating add-on status:'']\<rparr>)
          else (db', (snd s)\<lparr>addons :=
                  map (\<lambda>addon. if sa_id addon = ident
                                then addon\<lparr>sa_is_published := \<not> currentStatus\<rparr> else addon)
                    (addons render)\<rparr>))"

text \<open>
  Line 435: the button of the add-on at position \<open>i\<close> of a render calls
  \<^verbatim>\<open>handleTogglePublish(addon.id, addon.is_published)\<close> with the add-on, and the handler, of
  that render. The render is the state the view was last drawn from: the current state once
  React has re-rendered, an earlier one while an update is still awaited. Two clicks during
  one \<^verbatim>\<open>await\<close> end in the same state as two such clicks one after the other, since each
  writes the same flag to the database and stores the same array.
\<close>

definition click_toggle ::
  "bool \<Rightarrow> 'n dashboard \<Rightarrow> nat \<Rightarrow> database \<times> 'n dashboard \<Rightarrow> database \<times> 'n dashboard" where
  "click_toggle unavailable render i s =
     (if i < length (addons render)
      then handleTogglePublish_of_render unavailable render (sa_id (addons render ! i))
             (sa_is_published (addons render ! i)) s
      else s)"

text \<open>Lines 170 to 185.\<close>

definition handleUpdateOrderStatus ::
  "bool \<Rightarrow> string \<Rightarrow> string \<Rightarrow> database \<times> 'n dashboard \<Rightarrow> database \<times> 'n dashboard" where
  "handleUpdateOrderStatus unavailable orderId st s =
     (case update_order_status unavailable orderId st (fst s) of
        (err, db') \<Rightarrow>
          if err
          then (db', (snd s)\<lparr>console := console (snd s) @ [''Error updating order status:'']\<rparr>)
          else (db', (snd s)\<lparr>orders :=
                  map (\<lambda>order. if so_id order = orderId
                                then order\<lparr>so_order_status := st\<rparr> else order)
                    (orders (snd s))\<rparr>))"

text \<open>Lines 516 to 519: the values the order-status dropdown offers.\<close>

definition order_status_options :: "string list" where
  "order_status_options = [''pending'', ''processing'', ''completed'', ''cancelled'']"

section \<open>Concrete inputs\<close>

text \<open>
  An order for two add-ons. The payload also carries \<^verbatim>\<open>order_status\<close> and
  \<^verbatim>\<open>payment_status\<close>, which the handler never reads.
\<close>

definition item1 :: json where
  "item1 =
     JObj [(''addon_id'', JStr ''a-1''), (''addon_name'', JStr ''QR Attendance''),
           (''addon_description'', JStr ''Attendance by QR code''), (''quantity'', JNum 1),
           (''unit_price'', JNum 5000), (''total_price'', JNum 5000)]"

definition item2 :: json where
  "item2 =
     JObj [(''addon_id'', JStr ''a-2''), (''addon_name'', JStr ''Two-Factor Login''),
           (''addon_description'', JStr ''Second factor at login''), (''quantity'', JNum 2),
           (''unit_price'', JNum 1500), (''total_price'', JNum 3000)]"

definition order_payload :: json where
  "order_payload =
     JObj [(''customer_name'', JStr ''Amina''),
           (''customer_email'', JStr ''amina@school.example''),
           (''institution_name'', JStr ''Hill School''), (''payment_method'', JStr ''mpesa''),
           (''items'', JArr [item1, item2]), (''subtotal'', JNum 8000), (''tax_amount'', JNum 0),
           (''discount_amount'', JNum 0), (''total_amount'', JNum 8000),
           (''order_status'', JStr ''completed''), (''payment_status'', JStr ''paid'')]"

definition post_order :: request where
  "post_order = \<lparr>req_method = ''POST'', req_json = Some order_payload\<rparr>"

text \<open>The same order with an empty item list.\<close>

definition post_no_items :: request where
  "post_no_items =
     \<lparr>req_method = ''POST'',
      req_json = Some (JObj [(''customer_name'', JStr ''Amina''),
                             (''customer_email'', JStr ''amina@school.example''),
                             (''items'', JArr [])])\<rparr>"

text \<open>A request whose body is the JSON text \<^verbatim>\<open>null\<close>.\<close>

definition post_null :: request where
  "post_null = \<lparr>req_method = ''POST'', req_json = Some JNull\<rparr>"

text \<open>
  The order without \<^verbatim>\<open>subtotal\<close>, which the validation does not ask for and the column
  default of \<^verbatim>\<open>store_orders\<close> fills in.
\<close>

definition post_no_subtotal :: request where
  "post_no_subtotal =
     \<lparr>req_method = ''POST'',
      req_json = Some (JObj [(''customer_name'', JStr ''Amina''),
                             (''customer_email'', JStr ''amina@school.example''),
                             (''items'', JArr [item1, item2]),
                             (''total_amount'', JNum 8000)])\<rparr>"

text \<open>A world in which every call succeeds and the email key is set.\<close>

definition world0 :: world where
  "world0 =
     \<lparr>date_now = 1752066558000, math_random36 = [4, 15, 35, 34, 24, 8, 2],
      supabase_env_set = True, env_MAILERSEND_API_KEY = Some ''mlsn.key'',
      insert_order_result = Some ''o-1'', insert_items_ok = True, delete_order_ok = True,
      mailersend_fetch = FetchResponse True\<rparr>"

definition db0 :: database where
  "db0 = \<lparr>store_addons = [], store_orders = [], store_order_items = []\<rparr>"

text \<open>
  Whole numbers with exact addition: on whole amounts below \<open>2 ^ 53\<close> double addition is
  exact, and \<open>0\<close> is the one falsy whole number.
\<close>

definition whole_numbers :: "int number_ops" where
  "whole_numbers = \<lparr>num_add = (\<lambda>x y. x + y), num_zero = 0, num_falsy = (\<lambda>x. x = 0)\<rparr>"

text \<open>A dashboard showing two add-ons and two orders, and a database that agrees with it.\<close>

definition addon_a :: "int StoreAddon" where
  "addon_a =
     \<lparr>sa_id = ''a-1'', sa_name = ''QR Attendance'', sa_slug = ''qr-attendance'',
      sa_description = ''Attendance by QR code'', sa_short_description = ''QR attendance'',
      sa_price = 5000, sa_original_price = None, sa_currency = ''KES'',
      sa_features = [''QR codes''], sa_is_published = True, sa_is_featured = False,
      sa_is_popular = True, sa_download_count = 3, sa_rating = 4, sa_review_count = 2,
      sa_category = \<lparr>cat_name = ''SaaS'', cat_slug = ''saas''\<rparr>,
      sa_created_at = ''2025-07-09T13:09:18Z''\<rparr>"

definition addon_b :: "int StoreAddon" where
  "addon_b = addon_a\<lparr>sa_id := ''a-2'', sa_name := ''Two-Factor Login'', sa_price := 1500,
     sa_is_published := False\<rparr>"

definition order_a :: "int StoreOrder" where
  "order_a =
     \<lparr>so_id = ''o-1'', so_order_number = ''ORD-1752066558000-4FZYO'', so_customer_name = ''Amina'',
      so_customer_email = ''amina@school.example'', so_institution_name = ''Hill School'',
      so_order_status = ''completed'', so_payment_status = ''paid'', so_total_amount = 8000,
      so_currency = ''KES'', so_created_at = ''2025-07-09T13:09:18Z'',
      so_items = [\<lparr>ol_addon_name = ''QR Attendance'', ol_quantity = 1, ol_unit_price = 5000,
                    ol_total_price = 5000\<rparr>,
                  \<lparr>ol_addon_name = ''Two-Factor Login'', ol_quantity = 2, ol_unit_price = 1500,
                    ol_total_price = 3000\<rparr>]\<rparr>"

definition order_b :: "int StoreOrder" where
  "order_b = order_a\<lparr>so_id := ''o-2'', so_order_status := ''pending'',
     so_payment_status := ''pending'', so_total_amount := 1500, so_items := []\<rparr>"

definition dash0 :: "int dashboard" where
  "dash0 =
     \<lparr>addons = [addon_a, addon_b], orders = [order_a, order_b],
      stats = \<lparr>totalAddons = 0, publishedAddons = 0, totalOrders = 0, totalRevenue = 0,
               pendingOrders = 0\<rparr>,
      loading = True, console = []\<rparr>"

definition db1 :: database where
  "db1 =
     \<lparr>store_addons = [\<lparr>row_id = ''a-1'', row_is_published = True\<rparr>,
                       \<lparr>row_id = ''a-2'', row_is_published = False\<rparr>],
      store_orders =
        [(''o-1'', (order_values_of order_payload ''ORD-1752066558000-4FZYO'')
                     \<lparr>order_status := ''completed'', payment_status := ''paid''\<rparr>),
         (''o-2'', order_values_of order_payload ''ORD-1752066559000-K2M9Q'')],
      store_order_items = []\<rparr>"

section \<open>The shape of an order number\<close>

lemma digits10_ne: "digits10 n \<noteq> []"
  by (subst digits10.simps) simp

lemma lt10: "(d::nat) < 10 \<Longrightarrow> d \<in> set [0,1,2,3,4,5,6,7,8,9]"
  by (simp; arith)

lemma digit_char_digit: "d < 10 \<Longrightarrow> is_digit (digit_char d)"
  by (drule lt10) (auto simp: is_digit_def digit_char_def)

lemma digits10_digits: "list_all is_digit (digits10 n)"
proof (induction n rule: digits10.induct)
  case (1 n)
  show ?case
  proof (cases "n < 10")
    case True
    then show ?thesis by (subst digits10.simps) (simp add: digit_char_digit)
  next
    case False
    with 1 show ?thesis by (subst digits10.simps) (simp add: digit_char_digit)
  qed
qed

lemma digit_value_digit_char: "d < 10 \<Longrightarrow> digit_value (digit_char d) = d"
  by (drule lt10) (auto simp: digit_value_def digit_char_def)

lemma decimal_value_snoc: "decimal_value (s @ [c]) = 10 * decimal_value s + digit_value c"
  by (simp add: decimal_value_def)

lemma decimal_value_digits10: "decimal_value (digits10 n) = n"
proof (induction n rule: digits10.induct)
  case (1 n)
  show ?case
  proof (cases "n < 10")
    case True
    then show ?thesis
      by (subst digits10.simps) (simp add: decimal_value_def digit_value_digit_char)
  next
    case False
    with 1 have "decimal_value (digits10 (n div 10)) = n div 10" by simp
    with False show ?thesis
      by (subst digits10.simps) (simp add: decimal_value_snoc digit_value_digit_char)
  qed
qed

lemma lt36: "(d::nat) < 36 \<Longrightarrow> d \<in> set [0,1,2,3,4,5,6,7,8,9,10,11,12,13,14,15,16,17,18,19,20,21,22,23,24,25,26,27,28,29,30,31,32,33,34,35]"
  by (simp; arith)

lemma upper_digit36: "d < 36 \<Longrightarrow> is_upper_alnum (toUpper (digit_char d))"
  by (drule lt36) (auto simp: is_upper_alnum_def toUpper_def digit_char_def)

lemma suffix_eq: "toUpperCase (substr (toString36 ds) 2 5) = map (\<lambda>d. toUpper (digit_char d)) (take 5 ds)"
  by (cases ds) (simp_all add: toUpperCase_def substr_def toString36_def take_map)

lemma suffix_length: "length (toUpperCase (substr (toString36 ds) 2 5)) = min 5 (length ds)"
  by (simp add: suffix_eq min.commute)

lemma suffix_upper: "\<forall>d\<in>set ds. d < 36 \<Longrightarrow> list_all is_upper_alnum (toUpperCase (substr (toString36 ds) 2 5))"
  unfolding suffix_eq list_all_iff by (auto dest: in_set_takeD intro: upper_digit36)

lemma hyphen_not_digit: "\<not> is_digit CHR ''-''"
  by (simp add: is_digit_def)

lemma shape_intro:
  assumes "ts \<noteq> []" "list_all is_digit ts" "list_all is_upper_alnum sfx" "len_ok (length sfx)"
  shows "order_number_shape len_ok (''ORD-'' @ ts @ ''-'' @ sfx)"
proof -
  have a: "\<forall>c\<in>set ts. is_digit c" using assms(2) by (simp add: list_all_iff)
  have t: "takeWhile is_digit (ts @ CHR ''-'' # sfx) = ts"
    using a by (simp add: takeWhile_append2 hyphen_not_digit)
  have d: "dropWhile is_digit (ts @ CHR ''-'' # sfx) = CHR ''-'' # sfx"
    using a by (simp add: dropWhile_append2 hyphen_not_digit)
  show ?thesis
    unfolding order_number_shape_def using assms by (simp add: t d)
qed

lemma orderNumber_shape:
  assumes "\<forall>d\<in>set ds. d < 36"
  shows "order_number_shape (\<lambda>n. n = min 5 (length ds)) (orderNumber now ds)"
  unfolding orderNumber_def
  by (rule shape_intro) (simp_all add: digits10_ne digits10_digits suffix_upper [OF assms] suffix_length)

section \<open>Evaluating the handler\<close>

lemmas handler_defs = serve_def process_def after_order_def send_email_def missing_required_def
  orderItems_def items_list_def order_values_of_def emailContent_ok_def item_content_throws_def interpolation_throws_def
  method_call_throws_def field_def json_response_def
  delete_order_def Let_def

lemmas example_defs = world0_def post_order_def post_no_items_def post_null_def post_no_subtotal_def
  order_payload_def item1_def item2_def db0_def

lemma orderNumber_example:
  "orderNumber 1752066558000 [4, 15, 35, 34, 24, 8, 2] = ''ORD-1752066558000-4FZYO''"
  by (simp add: orderNumber_def digits10.simps toString36_def substr_def toUpperCase_def
      toUpper_def digit_char_def)

lemma orderNumber_half: "orderNumber 1752066558000 [18] = ''ORD-1752066558000-I''"
  by (simp add: orderNumber_def digits10.simps toString36_def substr_def toUpperCase_def
      toUpper_def digit_char_def)

lemma world0_sel:
  "date_now world0 = 1752066558000" "math_random36 world0 = [4, 15, 35, 34, 24, 8, 2]"
  "supabase_env_set world0" "env_MAILERSEND_API_KEY world0 = Some ''mlsn.key''"
  "insert_order_result world0 = Some ''o-1''" "insert_items_ok world0" "delete_order_ok world0"
  "mailersend_fetch world0 = FetchResponse True"
  by (simp_all add: world0_def)

lemma post_order_sel: "req_method post_order = ''POST''" "req_json post_order = Some order_payload"
  by (simp_all add: post_order_def)

lemma serve_example:
  "serve world0 post_order db0 =
     (json_response 200
        [(''success'', JBool True), (''order_id'', JStr ''o-1''),
         (''order_number'', JStr ''ORD-1752066558000-4FZYO''),
         (''message'', JStr ''Order created successfully''), (''email_sent'', JBool True)],
      \<lparr>store_addons = [],
       store_orders = [(''o-1'', order_values_of order_payload ''ORD-1752066558000-4FZYO'')],
       store_order_items = projr (map_items ''o-1'' [item1, item2])\<rparr>,
      [InsertOrder (order_values_of order_payload ''ORD-1752066558000-4FZYO''),
       InsertItems (projr (map_items ''o-1'' [item1, item2])),
       RpcIncrementDownloadCount (Some (JStr ''a-1'')),
       RpcIncrementDownloadCount (Some (JStr ''a-2'')),
       FetchMailersend])"
  by (simp add: handler_defs example_defs orderNumber_example)

lemma serve_200:
  assumes "serve w req db = (r, db', effs)" "req_method req \<noteq> ''OPTIONS''" "status r = 200"
  shows "\<exists>oid sent. body r = Some (JObj [(''success'', JBool True), (''order_id'', JStr oid),
            (''order_number'', JStr (orderNumber (date_now w) (math_random36 w))),
            (''message'', JStr ''Order created successfully''), (''email_sent'', JBool sent)])"
  using assms
  by (auto simp: serve_def process_def after_order_def json_response_def Let_def
      split: if_splits option.splits sum.splits prod.splits bool.splits)

lemma items_not_null: "item1 \<noteq> JNull" "item2 \<noteq> JNull"
  by (simp_all add: item1_def item2_def)

lemma db0_sel: "store_addons db0 = []" "store_orders db0 = []" "store_order_items db0 = []"
  by (simp_all add: db0_def)

lemma serve_items_failed:
  assumes "serve w req db = (r, db', effs)" "InsertItems rows \<in> set effs" "\<not> insert_items_ok w"
  shows "\<exists>od oid. req_json req = Some od \<and> insert_order_result w = Some oid \<and>
           r = json_response 500 [(''error'', JStr ''Failed to create order items'')] \<and>
           db' = (if delete_order_ok w
                  then delete_order oid (db\<lparr>store_orders := store_orders db @
                         [(oid, order_values_of od (orderNumber (date_now w) (math_random36 w)))]\<rparr>)
                  else db\<lparr>store_orders := store_orders db @
                         [(oid, order_values_of od (orderNumber (date_now w) (math_random36 w)))]\<rparr>) \<and>
           DeleteOrder oid \<in> set effs"
  using assms
  by (auto simp: serve_def process_def after_order_def Let_def
      split: if_splits option.splits sum.splits prod.splits bool.splits)

lemma serve_items_fail_example:
  "serve (world0\<lparr>insert_items_ok := False\<rparr>) post_order db0 =
     (json_response 500 [(''error'', JStr ''Failed to create order items'')],
      db0,
      [InsertOrder (order_values_of order_payload ''ORD-1752066558000-4FZYO''),
       InsertItems (projr (map_items ''o-1'' [item1, item2])),
       ConsoleError ''Order items creation error:'',
       DeleteOrder ''o-1''])"
  by (simp add: handler_defs example_defs orderNumber_example)

lemma send_email_effects:
  "set (snd (send_email w od items)) \<subseteq> {FetchMailersend, ConsoleError ''Email sending error:''}"
  by (auto simp: send_email_def split: fetch_outcome.splits)

lemma send_email_no_insert: "InsertOrder v \<notin> set (snd (send_email w od items))"
  using send_email_effects [of w od items] by auto

lemma send_email_no_items: "InsertItems v \<notin> set (snd (send_email w od items))"
  using send_email_effects [of w od items] by auto

lemma after_order_ok:
  assumes "after_order w od oid num db = (res, db', effs)" "InsertItems rows \<in> set effs"
    "insert_items_ok w"
  shows "res = Inr (json_response 200
                 [(''success'', JBool True), (''order_id'', JStr oid),
                  (''order_number'', JStr num),
                  (''message'', JStr ''Order created successfully''),
                  (''email_sent'', JBool (fst (send_email w od (items_list od))))]) \<and>
         effs = InsertItems rows #
                  map (\<lambda>item. RpcIncrementDownloadCount (field item ''addon_id'')) (items_list od) @
                  snd (send_email w od (items_list od))"
  using assms
  by (auto simp: after_order_def Let_def send_email_no_items split: sum.splits)

lemma process_items_ok:
  assumes "process w req db = (res, db', effs)" "InsertItems rows \<in> set effs" "insert_items_ok w"
  shows "\<exists>od oid. req_json req = Some od \<and>
           res = Inr (json_response 200
                 [(''success'', JBool True), (''order_id'', JStr oid),
                  (''order_number'', JStr (orderNumber (date_now w) (math_random36 w))),
                  (''message'', JStr ''Order created successfully''),
                  (''email_sent'', JBool (fst (send_email w od (items_list od))))]) \<and>
           effs = InsertOrder (order_values_of od (orderNumber (date_now w) (math_random36 w))) #
                  InsertItems rows #
                  map (\<lambda>item. RpcIncrementDownloadCount (field item ''addon_id'')) (items_list od) @
                  snd (send_email w od (items_list od))"
  using assms
  by (auto simp: process_def Let_def
      split: if_splits option.splits sum.splits prod.splits bool.splits
      dest!: after_order_ok)

lemma serve_items_ok:
  assumes "serve w req db = (r, db', effs)" "InsertItems rows \<in> set effs" "insert_items_ok w"
  shows "\<exists>od oid. req_json req = Some od \<and>
           r = json_response 200
                 [(''success'', JBool True), (''order_id'', JStr oid),
                  (''order_number'', JStr (orderNumber (date_now w) (math_random36 w))),
                  (''message'', JStr ''Order created successfully''),
                  (''email_sent'', JBool (fst (send_email w od (items_list od))))] \<and>
           effs = InsertOrder (order_values_of od (orderNumber (date_now w) (math_random36 w))) #
                  InsertItems rows #
                  map (\<lambda>item. RpcIncrementDownloadCount (field item ''addon_id'')) (items_list od) @
                  snd (send_email w od (items_list od))"
proof -
  obtain res where p: "process w req db = (res, db', effs)" and "res = Inr r"
    using assms(1,2)
    by (auto simp: serve_def split: if_splits sum.splits prod.splits dest: process_items_ok [OF _ _ assms(3)])
  with process_items_ok [OF p assms(2,3)] show ?thesis by auto
qed

lemma send_email_cases:
  "(\<not> api_key_configured w \<and> send_email w od xs = (False, [])) \<or>
   (api_key_configured w \<and> \<not> emailContent_ok od xs \<and>
      send_email w od xs = (False, [ConsoleError ''Email sending error:''])) \<or>
   (api_key_configured w \<and> emailContent_ok od xs \<and> mailersend_fetch w = FetchRejects \<and>
      send_email w od xs = (False, [FetchMailersend, ConsoleError ''Email sending error:''])) \<or>
   (api_key_configured w \<and> emailContent_ok od xs \<and>
      (\<exists>ok. mailersend_fetch w = FetchResponse ok \<and> send_email w od xs = (ok, [FetchMailersend])))"
  by (cases "mailersend_fetch w") (auto simp: send_email_def api_key_configured_def)

lemma serve_not_ok_example:
  "serve (world0\<lparr>mailersend_fetch := FetchResponse False\<rparr>) post_order db0 =
     (json_response 200
        [(''success'', JBool True), (''order_id'', JStr ''o-1''),
         (''order_number'', JStr ''ORD-1752066558000-4FZYO''),
         (''message'', JStr ''Order created successfully''), (''email_sent'', JBool False)],
      \<lparr>store_addons = [],
       store_orders = [(''o-1'', order_values_of order_payload ''ORD-1752066558000-4FZYO'')],
       store_order_items = projr (map_items ''o-1'' [item1, item2])\<rparr>,
      [InsertOrder (order_values_of order_payload ''ORD-1752066558000-4FZYO''),
       InsertItems (projr (map_items ''o-1'' [item1, item2])),
       RpcIncrementDownloadCount (Some (JStr ''a-1'')),
       RpcIncrementDownloadCount (Some (JStr ''a-2'')),
       FetchMailersend])"
  by (simp add: handler_defs example_defs orderNumber_example)

lemma serve_no_subtotal_example:
  "snd (snd (serve world0 post_no_subtotal db0)) =
     [InsertOrder (order_values_of (the (req_json post_no_subtotal)) ''ORD-1752066558000-4FZYO''),
      InsertItems (projr (map_items ''o-1'' [item1, item2])),
      RpcIncrementDownloadCount (Some (JStr ''a-1'')),
      RpcIncrementDownloadCount (Some (JStr ''a-2'')),
      ConsoleError ''Email sending error:'']"
  "status (fst (serve world0 post_no_subtotal db0)) = 200"
  "body_field (fst (serve world0 post_no_subtotal db0)) ''email_sent'' = Some (JBool False)"
  by (simp_all add: handler_defs example_defs orderNumber_example body_field_def)

lemma post_null_sel: "req_method post_null = ''POST''" "req_json post_null = Some JNull"
  by (simp_all add: post_null_def)

lemma post_no_items_sel:
  "req_method post_no_items = ''POST''"
  "req_json post_no_items =
     Some (JObj [(''customer_name'', JStr ''Amina''),
                 (''customer_email'', JStr ''amina@school.example''), (''items'', JArr [])])"
  by (simp_all add: post_no_items_def)

lemma serve_null_example:
  "serve world0 post_null db0 =
     (json_response 500
        [(''error'', JStr ''Internal server error''), (''details'', JStr ''TypeError'')],
      db0, [ConsoleError ''Error processing order:''])"
  by (simp add: handler_defs post_null_def)

lemma serve_no_items_example:
  "serve world0 post_no_items db0 =
     (json_response 400 [(''error'', JStr ''Missing required fields'')], db0, [])"
  by (simp add: handler_defs post_no_items_def)

section \<open>Claims about the order-intake handler\<close>

text \<open>
  Claim C2, as the code has it. Every order submission answered with status 200 carries as
  \<^verbatim>\<open>order_number\<close> the literal prefix \<^verbatim>\<open>ORD-\<close>, the decimal digits of the clock (which
  denote the timestamp), a hyphen, and the first five base-36 digits of the random number
  in upper case, fewer when it has fewer. So the number has the form
  \<^verbatim>\<open>ORD-<digits>-<suffix>\<close> with a suffix of at most five uppercase alphanumerics: as many as
  the random number has base-36 digits, and exactly five, as the pattern of the
  specification asks, whenever the random number prints with five digits or more.
\<close>

theorem C2_amended:
  assumes "serve w req db = (r, db', effs)" "req_method req \<noteq> ''OPTIONS''" "status r = 200"
    and "\<forall>d\<in>set (math_random36 w). d < 36"
  shows "body_field r ''order_number'' =
           Some (JStr (''ORD-'' @ digits10 (date_now w) @ ''-'' @
                       map (\<lambda>d. toUpper (digit_char d)) (take 5 (math_random36 w)))) \<and>
         decimal_value (digits10 (date_now w)) = date_now w \<and>
         order_number_shape (\<lambda>n. n = min 5 (length (math_random36 w)))
           (''ORD-'' @ digits10 (date_now w) @ ''-'' @
            map (\<lambda>d. toUpper (digit_char d)) (take 5 (math_random36 w))) \<and>
         (5 \<le> length (math_random36 w) \<longrightarrow>
            matches_order_pattern
              (''ORD-'' @ digits10 (date_now w) @ ''-'' @
               map (\<lambda>d. toUpper (digit_char d)) (take 5 (math_random36 w))))"
proof -
  let ?num = "''ORD-'' @ digits10 (date_now w) @ ''-'' @
              map (\<lambda>d. toUpper (digit_char d)) (take 5 (math_random36 w))"
  have n: "orderNumber (date_now w) (math_random36 w) = ?num"
    by (simp add: orderNumber_def suffix_eq)
  from serve_200 [OF assms(1-3)] obtain oid sent where
    b: "body r = Some (JObj [(''success'', JBool True), (''order_id'', JStr oid),
            (''order_number'', JStr (orderNumber (date_now w) (math_random36 w))),
            (''message'', JStr ''Order created successfully''), (''email_sent'', JBool sent)])"
    by blast
  have f: "body_field r ''order_number'' = Some (JStr ?num)"
    by (simp add: body_field_def b n)
  have s: "order_number_shape (\<lambda>n. n = min 5 (length (math_random36 w))) ?num"
    using orderNumber_shape [OF assms(4), of "date_now w"] by (simp only: n)
  have "5 \<le> length (math_random36 w) \<Longrightarrow> min 5 (length (math_random36 w)) = 5" by simp
  with s have m: "5 \<le> length (math_random36 w) \<longrightarrow> matches_order_pattern ?num"
    by (auto simp: matches_order_pattern_def)
  from f s m decimal_value_digits10 [of "date_now w"] show ?thesis by blast
qed

text \<open>
  The claim with exactly five characters fails when \<^verbatim>\<open>Math.random()\<close> returns \<^verbatim>\<open>0.5\<close>,
  which base 36 prints as \<^verbatim>\<open>"0.i"\<close>: the order is accepted and its number ends in the
  single character \<^verbatim>\<open>I\<close>.
\<close>

theorem C2_counterexample:
  "status (fst (serve (world0\<lparr>math_random36 := [18]\<rparr>) post_order db0)) = 200 \<and>
   body_field (fst (serve (world0\<lparr>math_random36 := [18]\<rparr>) post_order db0)) ''order_number'' =
     Some (JStr ''ORD-1752066558000-I'') \<and>
   \<not> matches_order_pattern ''ORD-1752066558000-I''"
  by (simp add: handler_defs example_defs orderNumber_half body_field_def
      matches_order_pattern_def order_number_shape_def is_digit_def is_upper_alnum_def)

theorem C2_witness:
  "req_method post_order \<noteq> ''OPTIONS'' \<and>
   status (fst (serve world0 post_order db0)) = 200 \<and>
   body_field (fst (serve world0 post_order db0)) ''order_number'' =
     Some (JStr ''ORD-1752066558000-4FZYO'') \<and>
   decimal_value ''1752066558000'' = 1752066558000 \<and>
   matches_order_pattern ''ORD-1752066558000-4FZYO''"
proof -
  have d: "digits10 1752066558000 = ''1752066558000''"
    by (simp add: digits10.simps digit_char_def)
  from C2_amended [OF serve_example] show ?thesis
    by (simp add: serve_example json_response_def body_field_def world0_sel post_order_sel d
        toUpper_def digit_char_def)
qed

text \<open>
  Claim C3, as the code has it. A payload on which \<^verbatim>\<open>customer_name\<close>, \<^verbatim>\<open>customer_email\<close>
  or \<^verbatim>\<open>items\<close> is missing, or whose \<^verbatim>\<open>items\<close> is the empty array, is answered with an
  error body and without any database call, the database staying as it was. The status is
  400 for every such payload but \<^verbatim>\<open>null\<close>; on \<^verbatim>\<open>null\<close> reading the first property throws,
  and the outer \<^verbatim>\<open>catch\<close> logs the exception and answers with status 500.
\<close>

theorem C3_amended:
  assumes "req_method req \<noteq> ''OPTIONS''" and "req_json req = Some od"
    and "field od ''customer_name'' = None \<or> field od ''customer_email'' = None \<or>
         field od ''items'' = None \<or> field od ''items'' = Some (JArr [])"
    and "serve w req db = (r, db', effs)"
  shows "has_error_field r \<and> db' = db \<and> (\<forall>e\<in>set effs. \<not> is_insert e) \<and>
         (od \<noteq> JNull \<longrightarrow> status r = 400 \<and> effs = []) \<and>
         (od = JNull \<longrightarrow> status r = 500 \<and> effs = [ConsoleError ''Error processing order:''])"
proof (cases "od = JNull")
  case True
  with assms(1,2,4) show ?thesis
    by (auto simp: serve_def process_def missing_required_def json_response_def
        has_error_field_def body_field_def)
next
  case False
  have m: "missing_required od = Inr True"
    using assms(3) False by (cases od) (auto simp: missing_required_def field_def)
  show ?thesis
    using assms(1,2,4) m False
    by (auto simp: serve_def process_def json_response_def has_error_field_def body_field_def)
qed

text \<open>
  The claim with status 400 for every payload fails on the body \<^verbatim>\<open>null\<close>, which has no
  \<^verbatim>\<open>customer_name\<close>: the answer has status 500.
\<close>

theorem C3_counterexample:
  "req_method post_null \<noteq> ''OPTIONS'' \<and> req_json post_null = Some JNull \<and>
   field JNull ''customer_name'' = None \<and>
   status (fst (serve world0 post_null db0)) = 500"
  by (simp add: serve_null_example json_response_def post_null_sel field_def)

theorem C3_witness:
  "req_method post_no_items \<noteq> ''OPTIONS'' \<and>
   field (the (req_json post_no_items)) ''items'' = Some (JArr []) \<and>
   status (fst (serve world0 post_no_items db0)) = 400 \<and>
   has_error_field (fst (serve world0 post_no_items db0)) \<and>
   snd (snd (serve world0 post_no_items db0)) = [] \<and>
   fst (snd (serve world0 post_no_items db0)) = db0 \<and>
   req_method post_null \<noteq> ''OPTIONS'' \<and>
   field (the (req_json post_null)) ''customer_name'' = None \<and>
   status (fst (serve world0 post_null db0)) = 500 \<and>
   has_error_field (fst (serve world0 post_null db0)) \<and>
   snd (snd (serve world0 post_null db0)) = [ConsoleError ''Error processing order:''] \<and>
   fst (snd (serve world0 post_null db0)) = db0"
  using C3_amended [of post_no_items "the (req_json post_no_items)" world0 db0
      "fst (serve world0 post_no_items db0)" "fst (snd (serve world0 post_no_items db0))"
      "snd (snd (serve world0 post_no_items db0))"]
    C3_amended [of post_null "the (req_json post_null)" world0 db0
      "fst (serve world0 post_null db0)" "fst (snd (serve world0 post_null db0))"
      "snd (snd (serve world0 post_null db0))"]
  by (simp add: post_no_items_sel post_null_sel field_def)



text \<open>
  Claim C1, as the code has it. When the order insert succeeded and the order-items insert
  was made and failed, the handler issues a delete for the order row it created and answers
  with status 500 and an error body. The result of the delete is not looked at: the row no
  longer exists afterwards provided that the delete itself succeeds.
\<close>

theorem C1_amended:
  assumes "serve w req db = (r, db', effs)" and "insert_order_result w = Some oid"
    and "InsertItems rows \<in> set effs" and "\<not> insert_items_ok w"
  shows "status r = 500 \<and> has_error_field r \<and> DeleteOrder oid \<in> set effs \<and>
         (delete_order_ok w \<longrightarrow> oid \<notin> fst ` set (store_orders db'))"
proof -
  from serve_items_failed [OF assms(1,3,4)] assms(2) obtain od where
    r: "r = json_response 500 [(''error'', JStr ''Failed to create order items'')]"
    and d: "DeleteOrder oid \<in> set effs"
    and db: "delete_order_ok w \<Longrightarrow> db' = delete_order oid (db\<lparr>store_orders := store_orders db @
                         [(oid, order_values_of od (orderNumber (date_now w) (math_random36 w)))]\<rparr>)"
    by auto
  have "status r = 500 \<and> has_error_field r"
    by (simp add: r json_response_def has_error_field_def body_field_def)
  moreover have "delete_order_ok w \<longrightarrow> oid \<notin> fst ` set (store_orders db')"
    using db by (auto simp: delete_order_def)
  ultimately show ?thesis using d by blast
qed

text \<open>
  The claim without that proviso fails where the delete reports an error too: the handler
  still answers 500, and the order row stays in the table.
\<close>

theorem C1_counterexample:
  "insert_order_result (world0\<lparr>insert_items_ok := False, delete_order_ok := False\<rparr>) = Some ''o-1'' \<and>
   \<not> insert_items_ok (world0\<lparr>insert_items_ok := False, delete_order_ok := False\<rparr>) \<and>
   InsertItems (projr (map_items ''o-1'' [item1, item2]))
     \<in> set (snd (snd (serve (world0\<lparr>insert_items_ok := False, delete_order_ok := False\<rparr>)
                         post_order db0))) \<and>
   ''o-1'' \<in> fst ` set (store_orders (fst (snd
       (serve (world0\<lparr>insert_items_ok := False, delete_order_ok := False\<rparr>) post_order db0))))"
  by (simp add: handler_defs example_defs orderNumber_example)

theorem C1_witness:
  "insert_order_result (world0\<lparr>insert_items_ok := False\<rparr>) = Some ''o-1'' \<and>
   InsertItems (projr (map_items ''o-1'' [item1, item2]))
     \<in> set (snd (snd (serve (world0\<lparr>insert_items_ok := False\<rparr>) post_order db0))) \<and>
   \<not> insert_items_ok (world0\<lparr>insert_items_ok := False\<rparr>) \<and>
   status (fst (serve (world0\<lparr>insert_items_ok := False\<rparr>) post_order db0)) = 500 \<and>
   has_error_field (fst (serve (world0\<lparr>insert_items_ok := False\<rparr>) post_order db0)) \<and>
   DeleteOrder ''o-1'' \<in> set (snd (snd (serve (world0\<lparr>insert_items_ok := False\<rparr>) post_order db0))) \<and>
   delete_order_ok (world0\<lparr>insert_items_ok := False\<rparr>) \<and>
   ''o-1'' \<notin> fst ` set (store_orders (fst (snd (serve (world0\<lparr>insert_items_ok := False\<rparr>) post_order db0))))"
  using C1_amended [OF serve_items_fail_example, of "''o-1''" "projr (map_items ''o-1'' [item1, item2])"]
  by (simp add: serve_items_fail_example world0_sel db0_sel items_not_null)

text \<open>
  Claim C9. Every order row the handler inserts has \<^verbatim>\<open>order_status\<close> and
  \<^verbatim>\<open>payment_status\<close> \<^verbatim>\<open>'pending'\<close>, whatever the payload holds: this is so for the values
  of every insert call, and for every row of \<^verbatim>\<open>store_orders\<close> that was not there before.
\<close>

theorem C9_orders_created_pending:
  assumes "serve w req db = (r, db', effs)"
  shows "(\<forall>vals. InsertOrder vals \<in> set effs \<longrightarrow>
            order_status vals = ''pending'' \<and> payment_status vals = ''pending'') \<and>
         (\<forall>row\<in>set (store_orders db'). row \<in> set (store_orders db) \<or>
            (order_status (snd row) = ''pending'' \<and> payment_status (snd row) = ''pending''))"
  using assms
  by (auto simp: serve_def process_def after_order_def Let_def order_values_of_def delete_order_def
      send_email_no_insert
      split: if_splits option.splits sum.splits prod.splits bool.splits)

theorem C9_witness:
  "field order_payload ''order_status'' = Some (JStr ''completed'') \<and>
   field order_payload ''payment_status'' = Some (JStr ''paid'') \<and>
   InsertOrder (order_values_of order_payload ''ORD-1752066558000-4FZYO'')
     \<in> set (snd (snd (serve world0 post_order db0))) \<and>
   order_status (order_values_of order_payload ''ORD-1752066558000-4FZYO'') = ''pending'' \<and>
   payment_status (order_values_of order_payload ''ORD-1752066558000-4FZYO'') = ''pending'' \<and>
   map (\<lambda>row. (order_status (snd row), payment_status (snd row)))
     (store_orders (fst (snd (serve world0 post_order db0)))) = [(''pending'', ''pending'')]"
  using C9_orders_created_pending [OF serve_example]
  by (simp add: serve_example field_def order_payload_def order_values_of_def items_not_null)

text \<open>
  Claim C5, as the code has it. On a request that got as far as the email step (the
  order-items insert was made and succeeded): the handler calls the email provider exactly
  when the API key is configured and building the message does not throw; an exception,
  thrown while the message is built or by the call to the provider, is caught and logged,
  and nothing else about the email is logged; the response has status 200 whatever happens
  to the email, and the outer \<^verbatim>\<open>catch\<close> is not reached; \<^verbatim>\<open>email_sent\<close> is true exactly when
  the provider was called and returned an OK response.
\<close>

theorem C5_amended:
  assumes "serve w req db = (r, db', effs)" and "req_json req = Some od"
    and "InsertItems rows \<in> set effs" and "insert_items_ok w"
  shows "status r = 200 \<and>
         ConsoleError ''Error processing order:'' \<notin> set effs \<and>
         (FetchMailersend \<in> set effs \<longleftrightarrow>
            api_key_configured w \<and> emailContent_ok od (items_list od)) \<and>
         (ConsoleError ''Email sending error:'' \<in> set effs \<longleftrightarrow>
            api_key_configured w \<and>
            (\<not> emailContent_ok od (items_list od) \<or> mailersend_fetch w = FetchRejects)) \<and>
         body_field r ''email_sent'' =
           Some (JBool (FetchMailersend \<in> set effs \<and> mailersend_fetch w = FetchResponse True))"
proof -
  from serve_items_ok [OF assms(1,3,4)] assms(2) obtain oid where
    r: "r = json_response 200
                 [(''success'', JBool True), (''order_id'', JStr oid),
                  (''order_number'', JStr (orderNumber (date_now w) (math_random36 w))),
                  (''message'', JStr ''Order created successfully''),
                  (''email_sent'', JBool (fst (send_email w od (items_list od))))]"
    and e: "effs = InsertOrder (order_values_of od (orderNumber (date_now w) (math_random36 w))) #
                  InsertItems rows #
                  map (\<lambda>item. RpcIncrementDownloadCount (field item ''addon_id'')) (items_list od) @
                  snd (send_email w od (items_list od))"
    by auto
  have st: "status r = 200" by (simp add: r json_response_def)
  have bf: "body_field r ''email_sent'' = Some (JBool (fst (send_email w od (items_list od))))"
    by (simp add: r json_response_def body_field_def)
  from send_email_cases [of w od "items_list od"] show ?thesis
    by (elim disjE exE conjE) (auto simp: st bf e)
qed

text \<open>
  The claim as stated fails in two ways. Where the provider answers with a response that is
  not OK, the email call has failed and nothing is logged: the effects hold no
  \<^verbatim>\<open>console.error\<close> at all. And on the order without \<^verbatim>\<open>subtotal\<close>, with the API key
  configured, \<^verbatim>\<open>orderData.subtotal.toLocaleString()\<close> throws while the message is built, so
  the provider is never called.
\<close>

theorem C5_counterexample:
  "api_key_configured (world0\<lparr>mailersend_fetch := FetchResponse False\<rparr>) \<and>
   snd (snd (serve (world0\<lparr>mailersend_fetch := FetchResponse False\<rparr>) post_order db0)) =
     [InsertOrder (order_values_of order_payload ''ORD-1752066558000-4FZYO''),
      InsertItems (projr (map_items ''o-1'' [item1, item2])),
      RpcIncrementDownloadCount (Some (JStr ''a-1'')),
      RpcIncrementDownloadCount (Some (JStr ''a-2'')),
      FetchMailersend] \<and>
   body_field (fst (serve (world0\<lparr>mailersend_fetch := FetchResponse False\<rparr>) post_order db0))
     ''email_sent'' = Some (JBool False) \<and>
   api_key_configured world0 \<and>
   status (fst (serve world0 post_no_subtotal db0)) = 200 \<and>
   FetchMailersend \<notin> set (snd (snd (serve world0 post_no_subtotal db0)))"
  by (simp add: serve_not_ok_example serve_no_subtotal_example json_response_def body_field_def
      api_key_configured_def world0_sel)

theorem C5_witness:
  "req_json post_order = Some order_payload \<and>
   InsertItems (projr (map_items ''o-1'' [item1, item2]))
     \<in> set (snd (snd (serve world0 post_order db0))) \<and>
   insert_items_ok world0 \<and>
   api_key_configured world0 \<and>
   emailContent_ok order_payload (items_list order_payload) \<and>
   status (fst (serve world0 post_order db0)) = 200 \<and>
   FetchMailersend \<in> set (snd (snd (serve world0 post_order db0))) \<and>
   body_field (fst (serve world0 post_order db0)) ''email_sent'' = Some (JBool True)"
  using C5_amended [OF serve_example post_order_sel(2),
      of "projr (map_items ''o-1'' [item1, item2])"]
  by (simp add: serve_example world0_sel post_order_sel items_not_null api_key_configured_def)

section \<open>Lists updated in place by key\<close>

lemma map_if_twice:
  "(\<And>x. c (g x) = c x) \<Longrightarrow>
   map (\<lambda>x. if c x then h x else x) (map (\<lambda>x. if c x then g x else x) xs) =
   map (\<lambda>x. if c x then h (g x) else x) xs"
  by (induction xs) auto

lemma map_if_id: "(\<And>x. x \<in> set xs \<Longrightarrow> c x \<Longrightarrow> g x = x) \<Longrightarrow> map (\<lambda>x. if c x then g x else x) xs = xs"
  by (induction xs) auto

lemma set_map_if:
  "y \<in> set (map (\<lambda>x. if c x then g x else x) xs) \<Longrightarrow>
     (\<exists>x\<in>set xs. c x \<and> y = g x) \<or> (y \<in> set xs \<and> \<not> c y)"
  by auto

lemma map_key_update: "(\<And>x. k (g x) = k x) \<Longrightarrow> map k (map g xs) = map k xs"
  by simp

lemma running_total_append:
  "k \<le> length xs \<Longrightarrow> running_total ops (xs @ ys) k = running_total ops xs k"
  by (induction k) (simp_all add: nth_append)

lemma foldl_running_total:
  "foldl (\<lambda>sum x. num_add ops sum (f x)) (num_zero ops) xs =
     running_total ops (map f xs) (length xs)"
proof (induction xs rule: rev_induct)
  case Nil
  show ?case by simp
next
  case (snoc x xs)
  have "running_total ops (map f xs @ [f x]) (length xs) = running_total ops (map f xs) (length xs)"
    by (rule running_total_append) simp
  with snoc show ?case by (simp add: nth_append)
qed

section \<open>Evaluating the dashboard operations\<close>

lemma handleTogglePublish_ok:
  "handleTogglePublish False ident cur (db, d) =
     (db\<lparr>store_addons :=
           map (\<lambda>r. if row_id r = ident then r\<lparr>row_is_published := \<not> cur\<rparr> else r)
             (store_addons db)\<rparr>,
      d\<lparr>addons := map (\<lambda>addon. if sa_id addon = ident
                                then addon\<lparr>sa_is_published := \<not> cur\<rparr> else addon) (addons d)\<rparr>)"
  by (simp add: handleTogglePublish_def update_is_published_def)

lemma handleTogglePublish_of_render_ok:
  "handleTogglePublish_of_render False render ident cur (db, d) =
     (db\<lparr>store_addons :=
           map (\<lambda>r. if row_id r = ident then r\<lparr>row_is_published := \<not> cur\<rparr> else r)
             (store_addons db)\<rparr>,
      d\<lparr>addons := map (\<lambda>addon. if sa_id addon = ident
                                then addon\<lparr>sa_is_published := \<not> cur\<rparr> else addon)
                    (addons render)\<rparr>)"
  by (simp add: handleTogglePublish_of_render_def update_is_published_def)

lemma handleTogglePublish_latest:
  "handleTogglePublish unavailable ident cur s =
     handleTogglePublish_of_render unavailable (snd s) ident cur s"
  by (simp add: handleTogglePublish_def handleTogglePublish_of_render_def)

lemma click_toggle_once:
  assumes "i < length (addons render)"
  shows "click_toggle False render i (db, d) =
     (db\<lparr>store_addons :=
           map (\<lambda>r. if row_id r = sa_id (addons render ! i)
                     then r\<lparr>row_is_published := \<not> sa_is_published (addons render ! i)\<rparr> else r)
             (store_addons db)\<rparr>,
      d\<lparr>addons := map (\<lambda>addon. if sa_id addon = sa_id (addons render ! i)
                     then addon\<lparr>sa_is_published := \<not> sa_is_published (addons render ! i)\<rparr>
                     else addon)
             (addons render)\<rparr>)"
  using assms by (simp add: click_toggle_def handleTogglePublish_of_render_ok)

lemma click_toggle_twice:
  assumes "i < length (addons d)"
  shows "click_toggle False (snd (click_toggle False d i (db, d))) i
           (click_toggle False d i (db, d)) =
     (db\<lparr>store_addons :=
           map (\<lambda>r. if row_id r = sa_id (addons d ! i)
                     then r\<lparr>row_is_published := sa_is_published (addons d ! i)\<rparr> else r)
             (store_addons db)\<rparr>,
      d\<lparr>addons := map (\<lambda>addon. if sa_id addon = sa_id (addons d ! i)
                     then addon\<lparr>sa_is_published := sa_is_published (addons d ! i)\<rparr> else addon)
             (addons d)\<rparr>)"
proof -
  let ?a = "addons d ! i"
  let ?d1 = "d\<lparr>addons := map (\<lambda>addon. if sa_id addon = sa_id ?a
                     then addon\<lparr>sa_is_published := \<not> sa_is_published ?a\<rparr> else addon)
             (addons d)\<rparr>"
  let ?db1 = "db\<lparr>store_addons :=
           map (\<lambda>r. if row_id r = sa_id ?a
                     then r\<lparr>row_is_published := \<not> sa_is_published ?a\<rparr> else r)
             (store_addons db)\<rparr>"
  have once: "click_toggle False d i (db, d) = (?db1, ?d1)"
    by (rule click_toggle_once [OF assms])
  have len: "i < length (addons ?d1)" using assms by simp
  have a1: "addons ?d1 ! i = ?a\<lparr>sa_is_published := \<not> sa_is_published ?a\<rparr>"
    using assms by simp
  have id1: "sa_id (addons ?d1 ! i) = sa_id ?a" by (simp only: a1) simp
  have p1: "sa_is_published (addons ?d1 ! i) = (\<not> sa_is_published ?a)" by (simp only: a1) simp
  have "click_toggle False (snd (click_toggle False d i (db, d))) i (click_toggle False d i (db, d))
          = click_toggle False ?d1 i (?db1, ?d1)"
    by (simp only: once snd_conv)
  also have "\<dots> =
     (?db1\<lparr>store_addons :=
           map (\<lambda>r. if row_id r = sa_id ?a
                     then r\<lparr>row_is_published := sa_is_published ?a\<rparr> else r)
             (store_addons ?db1)\<rparr>,
      ?d1\<lparr>addons := map (\<lambda>addon. if sa_id addon = sa_id ?a
                     then addon\<lparr>sa_is_published := sa_is_published ?a\<rparr> else addon)
             (addons ?d1)\<rparr>)"
    by (simp only: click_toggle_once [OF len] id1 p1 not_not)
  also have "\<dots> =
     (db\<lparr>store_addons :=
           map (\<lambda>r. if row_id r = sa_id ?a
                     then r\<lparr>row_is_published := sa_is_published ?a\<rparr> else r)
             (store_addons db)\<rparr>,
      d\<lparr>addons := map (\<lambda>addon. if sa_id addon = sa_id ?a
                     then addon\<lparr>sa_is_published := sa_is_published ?a\<rparr> else addon)
             (addons d)\<rparr>)"
    by (simp del: map_map add: map_if_twice)
  finally show ?thesis .
qed

text \<open>Two clicks on the button of one and the same render.\<close>

lemma click_toggle_same_render:
  assumes "i < length (addons d)"
  shows "click_toggle False d i (click_toggle False d i (db, d)) =
     (db\<lparr>store_addons :=
           map (\<lambda>r. if row_id r = sa_id (addons d ! i)
                     then r\<lparr>row_is_published := \<not> sa_is_published (addons d ! i)\<rparr> else r)
             (store_addons db)\<rparr>,
      d\<lparr>addons := map (\<lambda>addon. if sa_id addon = sa_id (addons d ! i)
                     then addon\<lparr>sa_is_published := \<not> sa_is_published (addons d ! i)\<rparr>
                     else addon)
             (addons d)\<rparr>)"
  by (simp del: map_map add: click_toggle_once [OF assms] map_if_twice)

lemma dropdown_allowed: "st \<in> set order_status_options \<Longrightarrow> st \<in> set allowed_order_status"
  by (auto simp: order_status_options_def allowed_order_status_def)

lemma handleUpdateOrderStatus_ok:
  assumes "st \<in> set allowed_order_status"
  shows "handleUpdateOrderStatus False orderId st (db, d) =
     (db\<lparr>store_orders :=
           map (\<lambda>r. if fst r = orderId then (fst r, (snd r)\<lparr>order_status := st\<rparr>) else r)
             (store_orders db)\<rparr>,
      d\<lparr>orders := map (\<lambda>order. if so_id order = orderId
                                then order\<lparr>so_order_status := st\<rparr> else order) (orders d)\<rparr>)"
  using assms by (simp add: handleUpdateOrderStatus_def update_order_status_def)

lemma example_flags:
  "sa_is_published addon_a" "\<not> sa_is_published addon_b"
  "sa_id addon_a = ''a-1''" "sa_id addon_b = ''a-2''"
  by (simp_all add: addon_a_def addon_b_def)

lemma example_orders:
  "so_total_amount order_a = 8000" "so_total_amount order_b = 1500"
  "so_order_status order_a = ''completed''" "so_order_status order_b = ''pending''"
  "so_id order_a = ''o-1''" "so_id order_b = ''o-2''"
  by (simp_all add: order_a_def order_b_def)

lemma dash0_sel:
  "addons dash0 = [addon_a, addon_b]" "orders dash0 = [order_a, order_b]" "console dash0 = []"
  by (simp_all add: dash0_def)

lemma db1_sel:
  "store_addons db1 = [\<lparr>row_id = ''a-1'', row_is_published = True\<rparr>,
                       \<lparr>row_id = ''a-2'', row_is_published = False\<rparr>]"
  "map fst (store_orders db1) = [''o-1'', ''o-2'']"
  "map (\<lambda>row. order_status (snd row)) (store_orders db1) = [''completed'', ''pending'']"
  "store_order_items db1 = []"
  by (simp_all add: db1_def order_values_of_def)

section \<open>Claims about the admin dashboard\<close>

text \<open>
  Claim C6, as the code has it. Clicking the publish button of an add-on twice, the second
  click on the view re-rendered after the first update, both updates succeeding: the first
  click negates the flag, the second click writes the original value again. Afterwards the
  add-on in the dashboard state is the original one, every database row with its id carries
  the original flag, the database is the original one if it agreed with the dashboard
  before, and the whole list of add-ons is the original one when ids are distinct.
\<close>

theorem C6_amended:
  assumes "i < length (addons d)"
    and "click_toggle False (snd (click_toggle False d i (db, d))) i
           (click_toggle False d i (db, d)) = (db2, d2)"
  shows "sa_is_published (addons (snd (click_toggle False d i (db, d))) ! i)
           = (\<not> sa_is_published (addons d ! i)) \<and>
         addons d2 ! i = addons d ! i \<and>
         (\<forall>row\<in>set (store_addons db2). row_id row = sa_id (addons d ! i) \<longrightarrow>
            row_is_published row = sa_is_published (addons d ! i)) \<and>
         ((\<forall>row\<in>set (store_addons db). row_id row = sa_id (addons d ! i) \<longrightarrow>
            row_is_published row = sa_is_published (addons d ! i)) \<longrightarrow> db2 = db) \<and>
         (distinct (map sa_id (addons d)) \<longrightarrow> addons d2 = addons d)"
proof -
  let ?a = "addons d ! i"
  from click_toggle_twice [OF assms(1), of db] assms(2)
  have db2: "db2 = db\<lparr>store_addons :=
           map (\<lambda>r. if row_id r = sa_id ?a
                     then r\<lparr>row_is_published := sa_is_published ?a\<rparr> else r)
             (store_addons db)\<rparr>"
    and d2: "d2 = d\<lparr>addons := map (\<lambda>addon. if sa_id addon = sa_id ?a
                     then addon\<lparr>sa_is_published := sa_is_published ?a\<rparr> else addon)
             (addons d)\<rparr>"
    by simp_all
  have 0: "sa_is_published (addons (snd (click_toggle False d i (db, d))) ! i)
           = (\<not> sa_is_published ?a)"
    using assms(1) by (simp add: click_toggle_once)
  have 1: "addons d2 ! i = ?a"
    using assms(1) by (simp add: d2)
  have 2: "\<forall>row\<in>set (store_addons db2). row_id row = sa_id ?a \<longrightarrow>
            row_is_published row = sa_is_published ?a"
  proof (intro ballI impI)
    fix row assume "row \<in> set (store_addons db2)" and i: "row_id row = sa_id ?a"
    then have "row \<in> set (map (\<lambda>r. if row_id r = sa_id ?a
                     then r\<lparr>row_is_published := sa_is_published ?a\<rparr> else r) (store_addons db))"
      by (simp add: db2)
    from set_map_if [OF this] i obtain x where "row = x\<lparr>row_is_published := sa_is_published ?a\<rparr>"
      by blast
    then show "row_is_published row = sa_is_published ?a" by simp
  qed
  have 3: "(\<forall>row\<in>set (store_addons db). row_id row = sa_id ?a \<longrightarrow>
            row_is_published row = sa_is_published ?a) \<longrightarrow> db2 = db"
  proof
    assume s: "\<forall>row\<in>set (store_addons db). row_id row = sa_id ?a \<longrightarrow>
            row_is_published row = sa_is_published ?a"
    have "map (\<lambda>r. if row_id r = sa_id ?a
                     then r\<lparr>row_is_published := sa_is_published ?a\<rparr> else r) (store_addons db)
          = store_addons db"
    proof (rule map_if_id)
      fix x assume "x \<in> set (store_addons db)" "row_id x = sa_id ?a"
      with s have "row_is_published x = sa_is_published ?a" by blast
      then have "x\<lparr>row_is_published := sa_is_published ?a\<rparr> = x\<lparr>row_is_published := row_is_published x\<rparr>"
        by simp
      then show "x\<lparr>row_is_published := sa_is_published ?a\<rparr> = x" by simp
    qed
    then show "db2 = db" by (simp add: db2)
  qed
  have 4: "distinct (map sa_id (addons d)) \<longrightarrow> addons d2 = addons d"
  proof
    assume dist: "distinct (map sa_id (addons d))"
    then have inj: "inj_on sa_id (set (addons d))" by (simp add: distinct_map)
    have mem: "?a \<in> set (addons d)" using assms(1) by simp
    have "map (\<lambda>addon. if sa_id addon = sa_id ?a
                     then addon\<lparr>sa_is_published := sa_is_published ?a\<rparr> else addon) (addons d)
          = addons d"
    proof (rule map_if_id)
      fix x assume "x \<in> set (addons d)" "sa_id x = sa_id ?a"
      with inj mem have "x = ?a" by (simp add: inj_on_eq_iff)
      then show "x\<lparr>sa_is_published := sa_is_published ?a\<rparr> = x" by simp
    qed
    then show "addons d2 = addons d" by (simp add: d2)
  qed
  from 0 1 2 3 4 show ?thesis by blast
qed

text \<open>
  Without that proviso the claim fails. The handler awaits the update before it stores the
  new array, so a second click can come from the same render as the first: it passes the
  same flag, both updates write the negation of the original, both succeed (nothing is
  logged), and the flag ends negated in the database and in the dashboard.
\<close>

theorem C6_counterexample:
  "map (\<lambda>row. (row_id row, row_is_published row)) (store_addons db1) =
     [(''a-1'', True), (''a-2'', False)] \<and>
   map (\<lambda>addon. (sa_id addon, sa_is_published addon)) (addons dash0) =
     [(''a-1'', True), (''a-2'', False)] \<and>
   map (\<lambda>row. (row_id row, row_is_published row))
     (store_addons (fst (click_toggle False dash0 0 (click_toggle False dash0 0 (db1, dash0))))) =
     [(''a-1'', False), (''a-2'', False)] \<and>
   map (\<lambda>addon. (sa_id addon, sa_is_published addon))
     (addons (snd (click_toggle False dash0 0 (click_toggle False dash0 0 (db1, dash0))))) =
     [(''a-1'', False), (''a-2'', False)] \<and>
   console (snd (click_toggle False dash0 0 (click_toggle False dash0 0 (db1, dash0)))) = []"
  by (simp add: click_toggle_same_render dash0_sel db1_sel example_flags)

theorem C6_witness:
  "0 < length (addons dash0) \<and>
   map (\<lambda>row. (row_id row, row_is_published row)) (store_addons db1) =
     [(''a-1'', True), (''a-2'', False)] \<and>
   map sa_id (addons dash0) = [''a-1'', ''a-2''] \<and>
   sa_is_published (addons dash0 ! 0) \<and>
   \<not> sa_is_published (addons (snd (click_toggle False dash0 0 (db1, dash0))) ! 0) \<and>
   click_toggle False (snd (click_toggle False dash0 0 (db1, dash0))) 0
     (click_toggle False dash0 0 (db1, dash0)) = (db1, dash0)"
  using C6_amended [of 0 dash0 db1
      "fst (click_toggle False (snd (click_toggle False dash0 0 (db1, dash0))) 0
              (click_toggle False dash0 0 (db1, dash0)))"
      "snd (click_toggle False (snd (click_toggle False dash0 0 (db1, dash0))) 0
              (click_toggle False dash0 0 (db1, dash0)))"]
  by (simp add: click_toggle_twice click_toggle_once dash0_sel db1_sel example_flags)

text \<open>
  Claim C7. Whatever the database and the dashboard hold for an order, a status update with
  any of the four values of the dropdown, on a database that is reachable, is written: every
  row and every local order with that id has the new status afterwards, no other order is
  touched in its id, and no error is logged. The handler never looks at the prior status.
\<close>

theorem C7_any_status_accepted:
  assumes "st \<in> set order_status_options"
    and "handleUpdateOrderStatus False orderId st (db, d) = (db', d')"
  shows "(\<forall>row\<in>set (store_orders db'). fst row = orderId \<longrightarrow> order_status (snd row) = st) \<and>
         map fst (store_orders db') = map fst (store_orders db) \<and>
         (\<forall>order\<in>set (orders d'). so_id order = orderId \<longrightarrow> so_order_status order = st) \<and>
         map so_id (orders d') = map so_id (orders d) \<and>
         console d' = console d"
proof -
  from handleUpdateOrderStatus_ok [OF dropdown_allowed [OF assms(1)], of orderId db d] assms(2)
  have db': "db' = db\<lparr>store_orders :=
           map (\<lambda>r. if fst r = orderId then (fst r, (snd r)\<lparr>order_status := st\<rparr>) else r)
             (store_orders db)\<rparr>"
    and d': "d' = d\<lparr>orders := map (\<lambda>order. if so_id order = orderId
                                then order\<lparr>so_order_status := st\<rparr> else order) (orders d)\<rparr>"
    by simp_all
  have 1: "\<forall>row\<in>set (store_orders db'). fst row = orderId \<longrightarrow> order_status (snd row) = st"
  proof (intro ballI impI)
    fix row assume "row \<in> set (store_orders db')" and i: "fst row = orderId"
    then have "row \<in> set (map (\<lambda>r. if fst r = orderId
                  then (fst r, (snd r)\<lparr>order_status := st\<rparr>) else r) (store_orders db))"
      by (simp add: db')
    from set_map_if [OF this] i obtain x where "row = (fst x, (snd x)\<lparr>order_status := st\<rparr>)"
      by blast
    then show "order_status (snd row) = st" by simp
  qed
  have 2: "map fst (store_orders db') = map fst (store_orders db)"
    unfolding db' by (simp del: map_map add: map_key_update)
  have 3: "\<forall>order\<in>set (orders d'). so_id order = orderId \<longrightarrow> so_order_status order = st"
  proof (intro ballI impI)
    fix order assume "order \<in> set (orders d')" and i: "so_id order = orderId"
    then have "order \<in> set (map (\<lambda>order. if so_id order = orderId
                  then order\<lparr>so_order_status := st\<rparr> else order) (orders d))"
      by (simp add: d')
    from set_map_if [OF this] i obtain x where "order = x\<lparr>so_order_status := st\<rparr>"
      by blast
    then show "so_order_status order = st" by simp
  qed
  have 4: "map so_id (orders d') = map so_id (orders d)"
    unfolding d' by (simp del: map_map add: map_key_update)
  have 5: "console d' = console d"
    unfolding d' by simp
  from 1 2 3 4 5 show ?thesis by blast
qed

theorem C7_witness:
  "''pending'' \<in> set order_status_options \<and>
   map so_order_status (orders dash0) = [''completed'', ''pending''] \<and>
   map (\<lambda>row. order_status (snd row)) (store_orders db1) = [''completed'', ''pending''] \<and>
   map so_order_status (orders (snd (handleUpdateOrderStatus False ''o-1'' ''pending'' (db1, dash0))))
     = [''pending'', ''pending''] \<and>
   map (\<lambda>row. order_status (snd row))
     (store_orders (fst (handleUpdateOrderStatus False ''o-1'' ''pending'' (db1, dash0))))
     = [''pending'', ''pending''] \<and>
   console (snd (handleUpdateOrderStatus False ''o-1'' ''pending'' (db1, dash0))) = []"
  using C7_any_status_accepted [of "''pending''" "''o-1''" db1 dash0
      "fst (handleUpdateOrderStatus False ''o-1'' ''pending'' (db1, dash0))"
      "snd (handleUpdateOrderStatus False ''o-1'' ''pending'' (db1, dash0))"]
  by (simp add: handleUpdateOrderStatus_ok allowed_order_status_def order_status_options_def
      dash0_sel example_orders db1_def order_values_of_def)

text \<open>
  Claim C8. After a fetch in which both queries return data, the state holds the fetched
  lists and these statistics: the number of add-ons, the number of published add-ons, the
  number of orders, the number of orders whose \<^verbatim>\<open>order_status\<close> is \<^verbatim>\<open>'pending'\<close>, and as
  revenue the running total of \<^verbatim>\<open>total_amount\<close> over all orders, whatever their status,
  added to \<^verbatim>\<open>0\<close> from left to right. This holds for every addition, so for that of doubles,
  which is not associative. The \<^verbatim>\<open>|| 0\<close> replaces a falsy total by \<^verbatim>\<open>0\<close>: the revenue is the
  total itself whenever a falsy total is \<^verbatim>\<open>0\<close>, that is, for doubles, whenever the total is
  not \<^verbatim>\<open>NaN\<close> (a total that starts from \<^verbatim>\<open>0\<close> is never \<^verbatim>\<open>-0\<close>).
\<close>

theorem C8_dashboard_stats:
  "fetchStoreData ops (PgData (Some as)) (PgData (Some os)) d =
     d\<lparr>addons := as, orders := os,
       stats := \<lparr>totalAddons = length as,
                 publishedAddons = length (filter sa_is_published as),
                 totalOrders = length os,
                 totalRevenue =
                   (if num_falsy ops (running_total ops (map so_total_amount os) (length os))
                    then num_zero ops
                    else running_total ops (map so_total_amount os) (length os)),
                 pendingOrders = length (filter (\<lambda>order. so_order_status order = ''pending'') os)\<rparr>,
       loading := False\<rparr> \<and>
   ((num_falsy ops (running_total ops (map so_total_amount os) (length os)) \<longrightarrow>
       running_total ops (map so_total_amount os) (length os) = num_zero ops) \<longrightarrow>
    totalRevenue (stats (fetchStoreData ops (PgData (Some as)) (PgData (Some os)) d)) =
      running_total ops (map so_total_amount os) (length os))"
  by (simp add: fetchStoreData_def calc_stats_def or_zero_def or_zero_number_def or_empty_def
      foldl_running_total)

theorem C8_witness:
  "running_total whole_numbers (map so_total_amount [order_a, order_b]) 2 = 9500 \<and>
   stats (fetchStoreData whole_numbers (PgData (Some [addon_a, addon_b]))
            (PgData (Some [order_a, order_b])) dash0) =
     \<lparr>totalAddons = 2, publishedAddons = 1, totalOrders = 2, totalRevenue = 9500,
      pendingOrders = 1\<rparr>"
  using C8_dashboard_stats [of whole_numbers "[addon_a, addon_b]" "[order_a, order_b]" dash0]
  by (simp add: example_flags example_orders whole_numbers_def numeral_2_eq_2)

text \<open>
  Claim C10. For deleting an add-on, toggling its publish flag and updating an order status:
  when the database call reports an error, the \<^verbatim>\<open>addons\<close> and \<^verbatim>\<open>orders\<close> arrays of the
  dashboard are what they were; so they change only after a call that returned without
  error. A delete that the user does not confirm changes nothing either.
\<close>

theorem C10_local_state_on_error:
  "(fst (delete_addon u ident db) \<longrightarrow>
      addons (snd (handleDeleteAddon True u ident (db, d))) = addons d \<and>
      orders (snd (handleDeleteAddon True u ident (db, d))) = orders d) \<and>
   addons (snd (handleDeleteAddon False u ident (db, d))) = addons d \<and>
   orders (snd (handleDeleteAddon False u ident (db, d))) = orders d \<and>
   (fst (update_is_published u ident (\<not> cur) db) \<longrightarrow>
      addons (snd (handleTogglePublish u ident cur (db, d))) = addons d \<and>
      orders (snd (handleTogglePublish u ident cur (db, d))) = orders d) \<and>
   (fst (update_order_status u ident st db) \<longrightarrow>
      addons (snd (handleUpdateOrderStatus u ident st (db, d))) = addons d \<and>
      orders (snd (handleUpdateOrderStatus u ident st (db, d))) = orders d)"
  by (auto simp: handleDeleteAddon_def handleTogglePublish_def handleUpdateOrderStatus_def
      split: prod.splits)

theorem C10_witness:
  "fst (delete_addon True ''a-1'' db1) \<and>
   addons (snd (handleDeleteAddon True True ''a-1'' (db1, dash0))) = addons dash0 \<and>
   orders (snd (handleDeleteAddon True True ''a-1'' (db1, dash0))) = orders dash0 \<and>
   fst (update_is_published True ''a-1'' (\<not> True) db1) \<and>
   addons (snd (handleTogglePublish True ''a-1'' True (db1, dash0))) = addons dash0 \<and>
   orders (snd (handleTogglePublish True ''a-1'' True (db1, dash0))) = orders dash0 \<and>
   fst (update_order_status True ''o-1'' ''processing'' db1) \<and>
   addons (snd (handleUpdateOrderStatus True ''o-1'' ''processing'' (db1, dash0))) = addons dash0 \<and>
   orders (snd (handleUpdateOrderStatus True ''o-1'' ''processing'' (db1, dash0))) = orders dash0 \<and>
   addons (snd (handleDeleteAddon True False ''a-1'' (db1, dash0))) = [addon_b]"
  using C10_local_state_on_error [of True "''a-1''" db1 dash0 True "''processing''"]
    C10_local_state_on_error [of True "''o-1''" db1 dash0 True "''processing''"]
  by (simp add: delete_addon_def update_is_published_def update_order_status_def
      handleDeleteAddon_def dash0_sel db1_sel example_flags)

end
